theory Spec2Isabelle
  imports Main "HOL-Library.Word" "HOL-Library.Multiset"
begin

section \<open>Data model (types.ts)\<close>

text \<open>
  The interfaces of the client: \<open>User\<close>, \<open>TaskStatus\<close>, \<open>Task\<close>, \<open>TaskPayload\<close> and
  \<open>AuthResponse\<close>. Identifiers are JavaScript numbers that the program only stores and
  compares with \<open>===\<close>; they are modelled as integers. Text that the program stores,
  compares and concatenates without looking at single characters is a \<open>string\<close>;
  optional and nullable fields are options.
\<close>

record User =
  user_id :: int
  user_name :: string
  user_email :: string
  user_createdAt :: "string option"
  user_updatedAt :: "string option"

text \<open>The literals \<open>todo\<close>, \<open>in_progress\<close> and \<open>done\<close>, capitalised.\<close>

datatype TaskStatus = Todo | In_progress | Done

record Task =
  task_id :: int
  task_title :: string
  task_description :: "string option"
  task_status :: TaskStatus
  task_userId :: "int option"
  task_assignee :: "User option"
  task_createdAt :: string
  task_updatedAt :: string

record TaskPayload =
  payload_title :: string
  payload_description :: "string option"
  payload_userId :: "int option"
  payload_status :: "TaskStatus option"

record AuthResponse =
  user :: User

section \<open>Values received from the network\<close>

text \<open>
  A parsed JSON document. A number is kept as the text that ECMAScript's
  \<open>Number::toString\<close> gives for it: the program never calculates with a received number,
  it only tests its truthiness and renders it, and zero (of either sign) is the one
  number rendered \<open>0\<close>. An object is the list of its own properties, each key once, as
  \<open>JSON.parse\<close> builds it.
\<close>

datatype json =
    JNull
  | JBool bool
  | JNum string
  | JStr string
  | JArr "json list"
  | JObj "(string \<times> json) list"

text \<open>
  What a \<open>catch\<close> clause can receive: an instance of \<open>Error\<close> with its message, or any
  other thrown value.
\<close>

datatype thrown = Error string | NonError

text \<open>
  A \<open>Response\<close> of the Fetch API. The program reads \<open>response.json()\<close> at two static
  types. \<open>extractErrorMessage\<close> reads it as \<open>any\<close>: field \<open>json\<close>, the parsed document.
  The success path of a list or session fetch reads it at the type the call site
  declares (\<open>User[]\<close>, \<open>Task[]\<close>, \<open>AuthResponse\<close>), which TypeScript does not check at
  run time: field \<open>typed\<close>, the same document seen at that type. The mutations never
  read the body of an accepted reply; their replies are typed \<open>unit\<close>. \<open>Inl e\<close> is a
  rejection of the promise with \<open>e\<close>. No path reads both fields of one response.
\<close>

record 'a response =
  status :: nat
  statusText :: string
  json :: "thrown + json"
  typed :: "thrown + 'a"

text \<open>\<open>response.ok\<close>: the status is in the range 200 to 299.\<close>

definition ok :: "('a, 'b) response_scheme \<Rightarrow> bool" where
  "ok r \<longleftrightarrow> 200 \<le> status r \<and> status r \<le> 299"

text \<open>The outcome of \<open>await fetch(...)\<close>: the promise rejects or resolves to a response.\<close>

datatype 'a fetched = Rejected thrown | Resolved "'a response"

section \<open>ECMAScript operations used by the error extractor\<close>

text \<open>Decimal rendering of a status code, as the template literal renders it.\<close>

definition digit_char :: "nat \<Rightarrow> char" where
  "digit_char d = char_of (48 + d)"

function show_nat :: "nat \<Rightarrow> string" where
  "show_nat n = (if n < 10 then [digit_char n] else show_nat (n div 10) @ [digit_char (n mod 10)])"
  by pat_completeness auto
termination
  by (relation "measure (\<lambda>n. n)") auto

declare show_nat.simps [simp del]

text \<open>\<open>xs.join(sep)\<close> on strings that are already rendered.\<close>

fun join_strings :: "string \<Rightarrow> string list \<Rightarrow> string" where
  "join_strings sep [] = []"
| "join_strings sep [x] = x"
| "join_strings sep (x # y # ys) = x @ sep @ join_strings sep (y # ys)"

text \<open>
  Reading one of the properties \<open>errors\<close>, \<open>message\<close> and \<open>msg\<close>, which no prototype
  defines: an object yields its own property, every other non-null value yields
  \<open>undefined\<close> (\<open>None\<close>). Reading a property of \<open>null\<close> throws; the two ways the program
  reads are kept apart below (\<open>payload?.errors\<close> and \<open>err.msg\<close>).
\<close>

fun own_property :: "string \<Rightarrow> json \<Rightarrow> json option" where
  "own_property k (JObj kvs) = map_of kvs k"
| "own_property k _ = None"

text \<open>\<open>payload?.k\<close>: optional chaining gives \<open>undefined\<close> on \<open>null\<close>.\<close>

fun optional_chain :: "string \<Rightarrow> json \<Rightarrow> json option" where
  "optional_chain k JNull = None"
| "optional_chain k v = own_property k v"

text \<open>\<open>err.k\<close>: a TypeError on \<open>null\<close> (the outer \<open>None\<close>), else the property.\<close>

fun member_access :: "string \<Rightarrow> json \<Rightarrow> json option option" where
  "member_access k JNull = None"
| "member_access k v = Some (own_property k v)"

text \<open>\<open>Boolean(v)\<close> for a value that may be \<open>undefined\<close>.\<close>

fun js_Boolean :: "json option \<Rightarrow> bool" where
  "js_Boolean None = False"
| "js_Boolean (Some JNull) = False"
| "js_Boolean (Some (JBool b)) = b"
| "js_Boolean (Some (JNum n)) = (n \<noteq> ''0'')"
| "js_Boolean (Some (JStr s)) = (s \<noteq> [])"
| "js_Boolean (Some (JArr xs)) = True"
| "js_Boolean (Some (JObj kvs)) = True"

text \<open>
  \<open>ToString\<close> of a parsed value; \<open>None\<close> is a thrown TypeError. An array renders as its
  elements joined with a comma, \<open>null\<close> elements as the empty string. A plain object
  renders as \<open>[object Object]\<close> through \<open>Object.prototype.toString\<close>, unless it has an own
  property \<open>toString\<close>: that value is not callable, \<open>valueOf\<close> gives back the object, and
  the conversion throws.
\<close>

fun js_ToString :: "json \<Rightarrow> string option" where
  "js_ToString JNull = Some ''null''"
| "js_ToString (JBool b) = Some (if b then ''true'' else ''false'')"
| "js_ToString (JNum n) = Some n"
| "js_ToString (JStr s) = Some s"
| "js_ToString (JArr xs) =
     map_option (join_strings '','')
       (those (map (\<lambda>x. if x = JNull then Some [] else js_ToString x) xs))"
| "js_ToString (JObj kvs) =
     (if ''toString'' \<in> fst ` set kvs then None else Some ''[object Object]'')"

text \<open>
  \<open>xs.join(sep)\<close> on values: \<open>undefined\<close> and \<open>null\<close> elements give the empty string, the
  others are converted with \<open>ToString\<close>; a conversion that throws ends the join.
\<close>

fun join_element :: "json option \<Rightarrow> string option" where
  "join_element None = Some []"
| "join_element (Some JNull) = Some []"
| "join_element (Some v) = js_ToString v"

definition js_join :: "string \<Rightarrow> json option list \<Rightarrow> string option" where
  "js_join sep xs = map_option (join_strings sep) (those (map join_element xs))"

section \<open>Error extractor (App.tsx, extractErrorMessage)\<close>

text \<open>How the \<open>try\<close> block ends: with a \<open>return\<close>, by running to its end, or by a throw.\<close>

datatype 'a completion = Returned 'a | FellThrough | Threw

definition status_line :: "('a, 'b) response_scheme \<Rightarrow> string" where
  "status_line response = show_nat (status response) @ '' '' @ statusText response"

text \<open>
  The body of the \<open>try\<close>: \<open>Array.isArray(payload?.errors) && payload.errors.length\<close> selects
  a non-empty array; its entries are mapped to \<open>err.msg\<close>, filtered with \<open>Boolean\<close> and
  joined with a comma and a space.
\<close>

definition errors_branch :: "json list \<Rightarrow> string completion" where
  "errors_branch errs =
     (case those (map (member_access ''msg'') errs) of
        None \<Rightarrow> Threw
      | Some msgs \<Rightarrow>
          (case js_join '', '' (filter js_Boolean msgs) of
             None \<Rightarrow> Threw
           | Some s \<Rightarrow> Returned s))"

definition message_branch :: "json \<Rightarrow> string completion" where
  "message_branch payload =
     (case optional_chain ''message'' payload of
        Some (JStr m) \<Rightarrow> Returned m
      | _ \<Rightarrow> FellThrough)"

definition extract_try :: "('a, 'b) response_scheme \<Rightarrow> string completion" where
  "extract_try response =
     (case json response of
        Inl e \<Rightarrow> Threw
      | Inr payload \<Rightarrow>
          (case optional_chain ''errors'' payload of
             Some (JArr errs) \<Rightarrow>
               (if errs \<noteq> [] then errors_branch errs else message_branch payload)
           | _ \<Rightarrow> message_branch payload))"

definition extractErrorMessage :: "('a, 'b) response_scheme \<Rightarrow> string" where
  "extractErrorMessage response =
     (case extract_try response of
        Returned s \<Rightarrow> s
      | FellThrough \<Rightarrow> status_line response
      | Threw \<Rightarrow> status_line response)"

section \<open>Controller state (App.tsx)\<close>

datatype AuthMode = login | register

text \<open>\<open>FilterOption\<close>, which is also \<open>TaskListFilter\<close>: the literal \<open>all\<close> or a status.\<close>

datatype FilterOption = FAll | FStatus TaskStatus

text \<open>
  Text typed into the sign-in form is a sequence of UTF-16 code units, since the form
  trims it and measures its length.
\<close>

type_synonym jsstring = "16 word list"

record LoginData =
  login_email :: jsstring
  login_password :: jsstring

record RegisterData =
  reg_name :: jsstring
  reg_email :: jsstring
  reg_password :: jsstring
  reg_confirmPassword :: jsstring

text \<open>The sixteen \<open>useState\<close> cells of \<open>App\<close>; the cell \<open>filter\<close> is \<open>filterOption\<close> here.\<close>

record AppState =
  currentUser :: "User option"
  authMode :: AuthMode
  authLoading :: bool
  authSubmitting :: bool
  authError :: "string option"
  tasks :: "Task list"
  users :: "User list"
  filterOption :: FilterOption
  tasksLoading :: bool
  usersLoading :: bool
  error :: "string option"
  isFormVisible :: bool
  editingTask :: "Task option"
  isSubmitting :: bool
  busyTaskId :: "int option"
  pendingDeleteTask :: "Task option"

definition initialState :: AppState where
  "initialState =
     \<lparr>currentUser = None, authMode = login, authLoading = True, authSubmitting = False,
      authError = None, tasks = [], users = [], filterOption = FAll, tasksLoading = False,
      usersLoading = False, error = None, isFormVisible = False, editingTask = None,
      isSubmitting = False, busyTaskId = None, pendingDeleteTask = None\<rparr>"

text \<open>The calls the controller makes to the remote service.\<close>

datatype request =
    GetMe
  | PostLogin LoginData
  | PostRegister RegisterData
  | PostLogout
  | GetUsers
  | GetTasks
  | PostTask TaskPayload
  | PutTask int TaskPayload
  | PatchTask int TaskStatus
  | DeleteTask int

text \<open>
  An asynchronous handler runs from one \<open>await\<close> to the next without interruption. Each
  such segment is a function on the state; it either finishes the handler or suspends
  it on a request. The state setters overwrite cells of the state that is current when
  the segment runs. The first segment of a handler reads the cells of the render that
  offered the event, which is the current state; no segment after an \<open>await\<close> reads a
  value captured earlier.
\<close>

datatype step = Finished AppState | Awaiting AppState request

fun state_of :: "step \<Rightarrow> AppState" where
  "state_of (Finished s) = s"
| "state_of (Awaiting s q) = s"

fun request_of :: "step \<Rightarrow> request option" where
  "request_of (Finished s) = None"
| "request_of (Awaiting s q) = Some q"

text \<open>\<open>err instanceof Error ? err.message : fallback\<close>\<close>

fun caught_message :: "thrown \<Rightarrow> string \<Rightarrow> string" where
  "caught_message (Error m) fallback = m"
| "caught_message NonError fallback = fallback"

subsection \<open>Session controller\<close>

definition closeForm :: "AppState \<Rightarrow> AppState" where
  "closeForm s = s\<lparr>isFormVisible := False, editingTask := None\<rparr>"

definition resetSession :: "string option \<Rightarrow> AppState \<Rightarrow> AppState" where
  "resetSession message s =
     (closeForm s)\<lparr>tasks := [], users := [], busyTaskId := None, editingTask := None,
       pendingDeleteTask := None, currentUser := None, error := None, filterOption := FAll,
       authMode := login, authError := message\<rparr>"

definition session_expired :: string where
  "session_expired = ''Your session has expired. Please log in again.''"

definition handleUnauthorized :: "AppState \<Rightarrow> AppState" where
  "handleUnauthorized s = resetSession (Some session_expired) s"

text \<open>
  The head shared by the six authenticated calls: the awaited \<open>fetch\<close> rejects (the
  value goes to \<open>catch\<close>), answers 401 (\<open>handleUnauthorized(); return\<close>), answers another
  status that is not \<open>ok\<close> (\<open>throw new Error(await extractErrorMessage(response))\<close>), or is
  accepted.
\<close>

datatype 'a reply = Unauthorized | Failed thrown | Accepted "'a response"

definition classify :: "'a fetched \<Rightarrow> 'a reply" where
  "classify f =
     (case f of
        Rejected e \<Rightarrow> Failed e
      | Resolved r \<Rightarrow>
          if status r = 401 then Unauthorized
          else if \<not> ok r then Failed (Error (extractErrorMessage r))
          else Accepted r)"

text \<open>The session check that runs once when the component mounts.\<close>

definition loadCurrentUser_begin :: "AppState \<Rightarrow> step" where
  "loadCurrentUser_begin s = Awaiting s GetMe"

definition loadCurrentUser_resume :: "AuthResponse fetched \<Rightarrow> AppState \<Rightarrow> AppState" where
  "loadCurrentUser_resume f s =
     (case f of
        Rejected e \<Rightarrow> s
      | Resolved r \<Rightarrow>
          if \<not> ok r then resetSession None s
          else (case typed r of
                  Inl e \<Rightarrow> s
                | Inr data \<Rightarrow> s\<lparr>currentUser := Some (user data), authError := None\<rparr>))
     \<lparr>authLoading := False\<rparr>"

definition handleLogin_begin :: "LoginData \<Rightarrow> AppState \<Rightarrow> step" where
  "handleLogin_begin p s =
     Awaiting (s\<lparr>authSubmitting := True, authError := None\<rparr>)
       (PostLogin \<lparr>login_email = login_email p, login_password = login_password p\<rparr>)"

definition handleLogin_resume :: "AuthResponse fetched \<Rightarrow> AppState \<Rightarrow> AppState" where
  "handleLogin_resume f s =
     (case f of
        Rejected e \<Rightarrow> s\<lparr>authError := Some (caught_message e ''Unable to log in.'')\<rparr>
      | Resolved r \<Rightarrow>
          if \<not> ok r then s\<lparr>authError := Some (extractErrorMessage r)\<rparr>
          else (case typed r of
                  Inl e \<Rightarrow> s\<lparr>authError := Some (caught_message e ''Unable to log in.'')\<rparr>
                | Inr data \<Rightarrow>
                    s\<lparr>currentUser := Some (user data), authMode := login, authError := None\<rparr>))
     \<lparr>authSubmitting := False\<rparr>"

definition handleRegister_begin :: "RegisterData \<Rightarrow> AppState \<Rightarrow> step" where
  "handleRegister_begin p s =
     Awaiting (s\<lparr>authSubmitting := True, authError := None\<rparr>)
       (PostRegister \<lparr>reg_name = reg_name p, reg_email = reg_email p,
          reg_password = reg_password p, reg_confirmPassword = reg_confirmPassword p\<rparr>)"

definition handleRegister_resume :: "AuthResponse fetched \<Rightarrow> AppState \<Rightarrow> AppState" where
  "handleRegister_resume f s =
     (case f of
        Rejected e \<Rightarrow> s\<lparr>authError := Some (caught_message e ''Unable to create account.'')\<rparr>
      | Resolved r \<Rightarrow>
          if \<not> ok r then s\<lparr>authError := Some (extractErrorMessage r)\<rparr>
          else (case typed r of
                  Inl e \<Rightarrow> s\<lparr>authError := Some (caught_message e ''Unable to create account.'')\<rparr>
                | Inr data \<Rightarrow>
                    s\<lparr>currentUser := Some (user data), authMode := login, authError := None\<rparr>))
     \<lparr>authSubmitting := False\<rparr>"

text \<open>Logout resets the session whatever the call did.\<close>

definition handleLogout_begin :: "AppState \<Rightarrow> step" where
  "handleLogout_begin s = Awaiting s PostLogout"

definition handleLogout_resume :: "unit fetched \<Rightarrow> AppState \<Rightarrow> AppState" where
  "handleLogout_resume f s = resetSession None s"

subsection \<open>Collection synchronizer\<close>

definition loadUsers_begin :: "AppState \<Rightarrow> step" where
  "loadUsers_begin s = Awaiting (s\<lparr>usersLoading := True\<rparr>) GetUsers"

definition loadUsers_resume :: "User list fetched \<Rightarrow> AppState \<Rightarrow> AppState" where
  "loadUsers_resume f s =
     (case classify f of
        Unauthorized \<Rightarrow> handleUnauthorized s
      | Failed e \<Rightarrow> s\<lparr>error := Some (caught_message e ''Failed to load users.'')\<rparr>
      | Accepted r \<Rightarrow>
          (case typed r of
             Inl e \<Rightarrow> s\<lparr>error := Some (caught_message e ''Failed to load users.'')\<rparr>
           | Inr data \<Rightarrow> s\<lparr>users := data, error := None\<rparr>))
     \<lparr>usersLoading := False\<rparr>"

definition refreshTasks_begin :: "AppState \<Rightarrow> step" where
  "refreshTasks_begin s = Awaiting (s\<lparr>tasksLoading := True\<rparr>) GetTasks"

definition refreshTasks_resume :: "Task list fetched \<Rightarrow> AppState \<Rightarrow> AppState" where
  "refreshTasks_resume f s =
     (case classify f of
        Unauthorized \<Rightarrow> handleUnauthorized s
      | Failed e \<Rightarrow> s\<lparr>error := Some (caught_message e ''Failed to load tasks.'')\<rparr>
      | Accepted r \<Rightarrow>
          (case typed r of
             Inl e \<Rightarrow> s\<lparr>error := Some (caught_message e ''Failed to load tasks.'')\<rparr>
           | Inr data \<Rightarrow> s\<lparr>tasks := data, error := None\<rparr>))
     \<lparr>tasksLoading := False\<rparr>"

text \<open>The two effects on \<open>currentUser\<close>.\<close>

definition users_effect :: "AppState \<Rightarrow> step" where
  "users_effect s =
     (if currentUser s \<noteq> None then loadUsers_begin s else Finished (s\<lparr>users := []\<rparr>))"

definition tasks_effect :: "AppState \<Rightarrow> step" where
  "tasks_effect s =
     (if currentUser s \<noteq> None then refreshTasks_begin s else Finished (s\<lparr>tasks := []\<rparr>))"

subsection \<open>Task mutation coordinator\<close>

text \<open>
  Each mutation has three segments: up to the request (\<open>begin\<close>), from the reply up to
  the \<open>await\<close> inside \<open>refreshTasks\<close> or to the end (\<open>response\<close>), and from the reply of the
  refresh to the end (\<open>refreshed\<close>). \<open>refreshTasks\<close> catches what it throws, so the code
  after \<open>await refreshTasks()\<close> always runs; the \<open>finally\<close> clause ends every path.
\<close>

definition handleCreateTask_begin :: "TaskPayload \<Rightarrow> AppState \<Rightarrow> step" where
  "handleCreateTask_begin payload s =
     Awaiting (s\<lparr>isSubmitting := True, error := None\<rparr>)
       (PostTask (payload\<lparr>payload_status :=
          Some (case payload_status payload of None \<Rightarrow> Todo | Some st \<Rightarrow> st)\<rparr>))"

definition handleCreateTask_response :: "unit fetched \<Rightarrow> AppState \<Rightarrow> step" where
  "handleCreateTask_response f s =
     (case classify f of
        Unauthorized \<Rightarrow> Finished ((handleUnauthorized s)\<lparr>isSubmitting := False\<rparr>)
      | Failed e \<Rightarrow>
          Finished (s\<lparr>error := Some (caught_message e ''Failed to create task.''),
                      isSubmitting := False\<rparr>)
      | Accepted r \<Rightarrow> refreshTasks_begin s)"

definition handleCreateTask_refreshed :: "Task list fetched \<Rightarrow> AppState \<Rightarrow> AppState" where
  "handleCreateTask_refreshed f s = (closeForm (refreshTasks_resume f s))\<lparr>isSubmitting := False\<rparr>"

definition handleUpdateTask_begin :: "TaskPayload \<Rightarrow> AppState \<Rightarrow> step" where
  "handleUpdateTask_begin payload s =
     (case editingTask s of
        None \<Rightarrow> Finished s
      | Some task \<Rightarrow>
          Awaiting (s\<lparr>isSubmitting := True, error := None\<rparr>)
            (PutTask (task_id task)
               (payload\<lparr>payload_status :=
                  Some (case payload_status payload of
                          None \<Rightarrow> task_status task | Some st \<Rightarrow> st)\<rparr>)))"

definition handleUpdateTask_response :: "unit fetched \<Rightarrow> AppState \<Rightarrow> step" where
  "handleUpdateTask_response f s =
     (case classify f of
        Unauthorized \<Rightarrow> Finished ((handleUnauthorized s)\<lparr>isSubmitting := False\<rparr>)
      | Failed e \<Rightarrow>
          Finished (s\<lparr>error := Some (caught_message e ''Failed to update task.''),
                      isSubmitting := False\<rparr>)
      | Accepted r \<Rightarrow> refreshTasks_begin s)"

definition handleUpdateTask_refreshed :: "Task list fetched \<Rightarrow> AppState \<Rightarrow> AppState" where
  "handleUpdateTask_refreshed f s = (closeForm (refreshTasks_resume f s))\<lparr>isSubmitting := False\<rparr>"

definition handleFormSubmit :: "TaskPayload \<Rightarrow> AppState \<Rightarrow> step" where
  "handleFormSubmit payload s =
     (if editingTask s \<noteq> None then handleUpdateTask_begin payload s
      else handleCreateTask_begin payload s)"

definition handleDeleteTask :: "Task \<Rightarrow> AppState \<Rightarrow> AppState" where
  "handleDeleteTask task s = s\<lparr>pendingDeleteTask := Some task\<rparr>"

definition handleConfirmDelete_begin :: "AppState \<Rightarrow> step" where
  "handleConfirmDelete_begin s =
     (case pendingDeleteTask s of
        None \<Rightarrow> Finished s
      | Some task \<Rightarrow>
          Awaiting (s\<lparr>busyTaskId := Some (task_id task), error := None\<rparr>)
            (DeleteTask (task_id task)))"

definition handleConfirmDelete_response :: "unit fetched \<Rightarrow> AppState \<Rightarrow> step" where
  "handleConfirmDelete_response f s =
     (case classify f of
        Unauthorized \<Rightarrow> Finished ((handleUnauthorized s)\<lparr>busyTaskId := None\<rparr>)
      | Failed e \<Rightarrow>
          Finished (s\<lparr>error := Some (caught_message e ''Failed to delete task.''),
                      busyTaskId := None\<rparr>)
      | Accepted r \<Rightarrow> refreshTasks_begin s)"

definition handleConfirmDelete_refreshed :: "Task list fetched \<Rightarrow> AppState \<Rightarrow> AppState" where
  "handleConfirmDelete_refreshed f s =
     (refreshTasks_resume f s)\<lparr>pendingDeleteTask := None, busyTaskId := None\<rparr>"

definition handleCancelDelete :: "AppState \<Rightarrow> AppState" where
  "handleCancelDelete s =
     (case (busyTaskId s, pendingDeleteTask s) of
        (Some busy, Some task) \<Rightarrow>
          if busy = task_id task then s else s\<lparr>pendingDeleteTask := None\<rparr>
      | _ \<Rightarrow> s\<lparr>pendingDeleteTask := None\<rparr>)"

definition handleUpdateStatus_begin :: "Task \<Rightarrow> TaskStatus \<Rightarrow> AppState \<Rightarrow> step" where
  "handleUpdateStatus_begin task nextStatus s =
     Awaiting (s\<lparr>busyTaskId := Some (task_id task), error := None\<rparr>)
       (PatchTask (task_id task) nextStatus)"

definition handleUpdateStatus_response :: "unit fetched \<Rightarrow> AppState \<Rightarrow> step" where
  "handleUpdateStatus_response f s =
     (case classify f of
        Unauthorized \<Rightarrow> Finished ((handleUnauthorized s)\<lparr>busyTaskId := None\<rparr>)
      | Failed e \<Rightarrow>
          Finished (s\<lparr>error := Some (caught_message e ''Failed to update task.''),
                      busyTaskId := None\<rparr>)
      | Accepted r \<Rightarrow> refreshTasks_begin s)"

definition handleUpdateStatus_refreshed :: "Task list fetched \<Rightarrow> AppState \<Rightarrow> AppState" where
  "handleUpdateStatus_refreshed f s = (refreshTasks_resume f s)\<lparr>busyTaskId := None\<rparr>"

subsection \<open>Form workflow\<close>

definition openCreateForm :: "AppState \<Rightarrow> AppState" where
  "openCreateForm s = s\<lparr>editingTask := None, isFormVisible := True\<rparr>"

definition onEdit :: "Task \<Rightarrow> AppState \<Rightarrow> AppState" where
  "onEdit task s = s\<lparr>editingTask := Some task, isFormVisible := True\<rparr>"

definition isLoading :: "AppState \<Rightarrow> bool" where
  "isLoading s \<longleftrightarrow> tasksLoading s \<or> usersLoading s"

definition showLoader :: "AppState \<Rightarrow> bool" where
  "showLoader s \<longleftrightarrow> isLoading s \<and> tasks s = []"

section \<open>Kanban categorizer (TaskList.tsx)\<close>

record Column =
  col_key :: TaskStatus
  col_title :: string
  col_accent :: string
  col_matcher :: "Task \<Rightarrow> bool"
  col_actions :: "(string \<times> TaskStatus) list"

definition columns :: "Column list" where
  "columns =
     [\<lparr>col_key = Todo, col_title = ''To Do'', col_accent = ''#f97316'',
       col_matcher = (\<lambda>task. task_status task = Todo),
       col_actions = [(''Mark in progress'', In_progress)]\<rparr>,
      \<lparr>col_key = In_progress, col_title = ''In Progress'', col_accent = ''#3b82f6'',
       col_matcher = (\<lambda>task. task_status task = In_progress),
       col_actions = [(''Mark completed'', Done), (''Move to To Do'', Todo)]\<rparr>,
      \<lparr>col_key = Done, col_title = ''Done'', col_accent = ''#10b981'',
       col_matcher = (\<lambda>task. task_status task = Done),
       col_actions = [(''Reopen'', In_progress)]\<rparr>]"

text \<open>
  What \<open>TaskList\<close> renders, without the markup: per column its key, whether it is muted,
  the count shown in its header and its cards in order; per card the task, the label of
  the assignee, whether its buttons are disabled and the status buttons offered.
\<close>

record Card =
  card_task :: Task
  card_assignedLabel :: string
  card_isBusy :: bool
  card_actions :: "(string \<times> TaskStatus) list"

record ColumnView =
  view_key :: TaskStatus
  view_muted :: bool
  view_count :: nat
  view_cards :: "Card list"

definition render_card :: "Column \<Rightarrow> int option \<Rightarrow> Task \<Rightarrow> Card" where
  "render_card column busy task =
     \<lparr>card_task = task,
      card_assignedLabel =
        (case task_assignee task of Some u \<Rightarrow> user_name u | None \<Rightarrow> ''Unassigned''),
      card_isBusy = (busy = Some (task_id task)),
      card_actions = col_actions column\<rparr>"

definition render_column :: "Task list \<Rightarrow> FilterOption \<Rightarrow> int option \<Rightarrow> Column \<Rightarrow> ColumnView" where
  "render_column task_list activeFilter busy column =
     (let columnTasks = filter (col_matcher column) task_list;
          muted = (activeFilter \<noteq> FAll \<and> activeFilter \<noteq> FStatus (col_key column))
      in \<lparr>view_key = col_key column, view_muted = muted, view_count = length columnTasks,
          view_cards = map (render_card column busy) columnTasks\<rparr>)"

definition TaskList :: "Task list \<Rightarrow> FilterOption \<Rightarrow> int option \<Rightarrow> ColumnView list" where
  "TaskList task_list activeFilter busy = map (render_column task_list activeFilter busy) columns"

text \<open>The tasks of a rendered column, in the order of its cards.\<close>

definition view_tasks :: "ColumnView \<Rightarrow> Task list" where
  "view_tasks v = map card_task (view_cards v)"

section \<open>Sign-in form (AuthForm.tsx)\<close>

text \<open>
  \<open>String.prototype.trim\<close> removes white space and line terminators at both ends; all of
  them are single code units.
\<close>

definition js_whitespace :: "16 word \<Rightarrow> bool" where
  "js_whitespace c \<longleftrightarrow>
     c = 0x9 \<or> c = 0xA \<or> c = 0xB \<or> c = 0xC \<or> c = 0xD \<or> c = 0x20 \<or> c = 0xA0 \<or>
     c = 0x1680 \<or> (0x2000 \<le> c \<and> c \<le> 0x200A) \<or> c = 0x2028 \<or> c = 0x2029 \<or>
     c = 0x202F \<or> c = 0x205F \<or> c = 0x3000 \<or> c = 0xFEFF"

definition js_trim :: "jsstring \<Rightarrow> jsstring" where
  "js_trim s = rev (dropWhile js_whitespace (rev (dropWhile js_whitespace s)))"

record AuthFormState =
  loginData :: LoginData
  registerData :: RegisterData
  localError :: "string option"

text \<open>
  What one run of \<open>handleSubmit\<close> does: the state of the form afterwards, whether it
  called \<open>onClearError\<close>, and the callback it awaited, if any.
\<close>

datatype auth_call = OnLogin LoginData | OnRegister RegisterData

record Submission =
  form_after :: AuthFormState
  clearError_called :: bool
  submitted :: "auth_call option"

definition submit_login :: "AuthFormState \<Rightarrow> Submission" where
  "submit_login st =
     (let trimmed = \<lparr>login_email = js_trim (login_email (loginData st)),
                     login_password = login_password (loginData st)\<rparr>
      in if login_email trimmed = [] \<or> login_password trimmed = []
         then \<lparr>form_after = st\<lparr>localError := Some ''Enter your email and password.''\<rparr>,
               clearError_called = True, submitted = None\<rparr>
         else \<lparr>form_after = st\<lparr>localError := None\<rparr>, clearError_called = True,
               submitted = Some (OnLogin trimmed)\<rparr>)"

definition submit_register :: "AuthFormState \<Rightarrow> Submission" where
  "submit_register st =
     (let trimmed = \<lparr>reg_name = js_trim (reg_name (registerData st)),
                     reg_email = js_trim (reg_email (registerData st)),
                     reg_password = reg_password (registerData st),
                     reg_confirmPassword = reg_confirmPassword (registerData st)\<rparr>
      in if reg_name trimmed = [] \<or> reg_email trimmed = [] \<or> reg_password trimmed = []
         then \<lparr>form_after = st\<lparr>localError := Some ''Complete all fields to continue.''\<rparr>,
               clearError_called = True, submitted = None\<rparr>
         else if length (reg_password trimmed) < 6
         then \<lparr>form_after = st\<lparr>localError := Some ''Password must be at least 6 characters.''\<rparr>,
               clearError_called = True, submitted = None\<rparr>
         else if reg_password trimmed \<noteq> reg_confirmPassword trimmed
         then \<lparr>form_after = st\<lparr>localError := Some ''Passwords do not match.''\<rparr>,
               clearError_called = True, submitted = None\<rparr>
         else \<lparr>form_after = st\<lparr>localError := None\<rparr>, clearError_called = True,
               submitted = Some (OnRegister trimmed)\<rparr>)"

text \<open>
  \<open>handleSubmit\<close> with the props \<open>mode\<close>, \<open>isSubmitting\<close> and \<open>isLoading\<close>. After the guard
  it calls \<open>onClearError\<close> and clears the local error, then validates.
\<close>

definition handleSubmit :: "AuthMode \<Rightarrow> bool \<Rightarrow> bool \<Rightarrow> AuthFormState \<Rightarrow> Submission" where
  "handleSubmit prop_mode prop_isSubmitting prop_isLoading st =
     (if prop_isSubmitting \<or> prop_isLoading
      then \<lparr>form_after = st, clearError_called = False, submitted = None\<rparr>
      else (case prop_mode of
              login \<Rightarrow> submit_login st
            | register \<Rightarrow> submit_register st))"

text \<open>
  The form as \<open>App\<close> mounts it: \<open>mode\<close>, \<open>isSubmitting\<close> and \<open>isLoading\<close> are the cells
  \<open>authMode\<close>, \<open>authSubmitting\<close> and \<open>authLoading\<close>, \<open>onClearError\<close> clears \<open>authError\<close>, and
  \<open>onLogin\<close> and \<open>onRegister\<close> are \<open>handleLogin\<close> and \<open>handleRegister\<close>, the only places that
  call the login and register endpoints.
\<close>

definition submit_auth_form :: "AuthFormState \<Rightarrow> AppState \<Rightarrow> step" where
  "submit_auth_form st s =
     (let sub = handleSubmit (authMode s) (authSubmitting s) (authLoading s) st;
          s' = (if clearError_called sub then s\<lparr>authError := None\<rparr> else s)
      in case submitted sub of
           None \<Rightarrow> Finished s'
         | Some (OnLogin p) \<Rightarrow> handleLogin_begin p s'
         | Some (OnRegister p) \<Rightarrow> handleRegister_begin p s')"

section \<open>Runs of the controller\<close>

text \<open>
  The events that change the state of \<open>App\<close>: the user's actions on what is rendered, the
  two effects, and the replies of the remote service to the requests of the handlers.
\<close>

datatype event =
    ClickAddTask
  | ClickEdit Task
  | ClickDelete Task
  | ClickStatus Task TaskStatus
  | ClickFilter FilterOption
  | ClickDismiss
  | ClickLogout
  | ClickCloseForm
  | SubmitTaskForm TaskPayload
  | ClickConfirmDelete
  | ClickCancelDelete
  | SubmitAuthForm AuthFormState
  | AuthInput
  | ToggleAuthMode AuthMode
  | UsersEffect
  | TasksEffect
  | SessionReply "AuthResponse fetched"
  | LoginReply "AuthResponse fetched"
  | RegisterReply "AuthResponse fetched"
  | LogoutReply "unit fetched"
  | UsersReply "User list fetched"
  | TasksReply "Task list fetched"
  | CreateReply "unit fetched"
  | CreateRefreshReply "Task list fetched"
  | UpdateReply "unit fetched"
  | UpdateRefreshReply "Task list fetched"
  | DeleteReply "unit fetched"
  | DeleteRefreshReply "Task list fetched"
  | StatusReply "unit fetched"
  | StatusRefreshReply "Task list fetched"

text \<open>The card of a task is on the board and its buttons are not disabled.\<close>

definition card_enabled :: "Task \<Rightarrow> AppState \<Rightarrow> bool" where
  "card_enabled task s \<longleftrightarrow>
     currentUser s \<noteq> None \<and> \<not> showLoader s \<and> task \<in> set (tasks s) \<and>
     busyTaskId s \<noteq> Some (task_id task)"

text \<open>
  When the markup of \<open>App\<close> and \<open>TaskList\<close> offers an action: the element is rendered and
  not \<open>disabled\<close>. The task form may submit any payload (its own check of the title is
  not part of the controller). Effects and replies are not restricted: which requests
  are pending is not recorded in the state, so the runs below include every run of the
  program.
\<close>

fun enabled :: "event \<Rightarrow> AppState \<Rightarrow> bool" where
  "enabled ClickAddTask s \<longleftrightarrow> currentUser s \<noteq> None \<and> \<not> usersLoading s"
| "enabled (ClickEdit task) s \<longleftrightarrow> card_enabled task s"
| "enabled (ClickDelete task) s \<longleftrightarrow> card_enabled task s"
| "enabled (ClickStatus task nextStatus) s \<longleftrightarrow>
     card_enabled task s \<and>
     list_ex (\<lambda>column. col_matcher column task \<and> nextStatus \<in> snd ` set (col_actions column))
       columns"
| "enabled (ClickFilter k) s \<longleftrightarrow> currentUser s \<noteq> None \<and> filterOption s \<noteq> k"
| "enabled ClickDismiss s \<longleftrightarrow> currentUser s \<noteq> None \<and> error s \<noteq> None \<and> error s \<noteq> Some []"
| "enabled ClickLogout s \<longleftrightarrow> currentUser s \<noteq> None"
| "enabled ClickCloseForm s \<longleftrightarrow> currentUser s \<noteq> None \<and> isFormVisible s"
| "enabled (SubmitTaskForm payload) s \<longleftrightarrow>
     currentUser s \<noteq> None \<and> isFormVisible s \<and> \<not> isSubmitting s"
| "enabled ClickConfirmDelete s \<longleftrightarrow>
     currentUser s \<noteq> None \<and>
     (case pendingDeleteTask s of
        None \<Rightarrow> False
      | Some task \<Rightarrow> busyTaskId s \<noteq> Some (task_id task))"
| "enabled ClickCancelDelete s \<longleftrightarrow> currentUser s \<noteq> None \<and> pendingDeleteTask s \<noteq> None"
| "enabled (SubmitAuthForm st) s \<longleftrightarrow> currentUser s = None"
| "enabled AuthInput s \<longleftrightarrow> currentUser s = None"
| "enabled (ToggleAuthMode m) s \<longleftrightarrow> currentUser s = None"
| "enabled e s \<longleftrightarrow> True"

fun fire :: "event \<Rightarrow> AppState \<Rightarrow> AppState" where
  "fire ClickAddTask s = openCreateForm s"
| "fire (ClickEdit task) s = onEdit task s"
| "fire (ClickDelete task) s = handleDeleteTask task s"
| "fire (ClickStatus task nextStatus) s = state_of (handleUpdateStatus_begin task nextStatus s)"
| "fire (ClickFilter k) s = s\<lparr>filterOption := k\<rparr>"
| "fire ClickDismiss s = s\<lparr>error := None\<rparr>"
| "fire ClickLogout s = state_of (handleLogout_begin s)"
| "fire ClickCloseForm s = closeForm s"
| "fire (SubmitTaskForm payload) s = state_of (handleFormSubmit payload s)"
| "fire ClickConfirmDelete s = state_of (handleConfirmDelete_begin s)"
| "fire ClickCancelDelete s = handleCancelDelete s"
| "fire (SubmitAuthForm st) s = state_of (submit_auth_form st s)"
| "fire AuthInput s = s\<lparr>authError := None\<rparr>"
| "fire (ToggleAuthMode m) s =
     (if m \<noteq> authMode s then s\<lparr>authError := None, authMode := m\<rparr>
      else s\<lparr>authError := None\<rparr>)"
| "fire UsersEffect s = state_of (users_effect s)"
| "fire TasksEffect s = state_of (tasks_effect s)"
| "fire (SessionReply f) s = loadCurrentUser_resume f s"
| "fire (LoginReply f) s = handleLogin_resume f s"
| "fire (RegisterReply f) s = handleRegister_resume f s"
| "fire (LogoutReply f) s = handleLogout_resume f s"
| "fire (UsersReply f) s = loadUsers_resume f s"
| "fire (TasksReply f) s = refreshTasks_resume f s"
| "fire (CreateReply f) s = state_of (handleCreateTask_response f s)"
| "fire (CreateRefreshReply f) s = handleCreateTask_refreshed f s"
| "fire (UpdateReply f) s = state_of (handleUpdateTask_response f s)"
| "fire (UpdateRefreshReply f) s = handleUpdateTask_refreshed f s"
| "fire (DeleteReply f) s = state_of (handleConfirmDelete_response f s)"
| "fire (DeleteRefreshReply f) s = handleConfirmDelete_refreshed f s"
| "fire (StatusReply f) s = state_of (handleUpdateStatus_response f s)"
| "fire (StatusRefreshReply f) s = handleUpdateStatus_refreshed f s"

text \<open>
  A run fires enabled events one after the other; \<open>discipline\<close> is a further condition
  on each event, \<open>None\<close> the result when an event is not offered.
\<close>

fun run :: "(event \<Rightarrow> AppState \<Rightarrow> bool) \<Rightarrow> event list \<Rightarrow> AppState \<Rightarrow> AppState option" where
  "run discipline [] s = Some s"
| "run discipline (e # es) s =
     (if enabled e s \<and> discipline e s then run discipline es (fire e s) else None)"

definition unrestricted :: "event \<Rightarrow> AppState \<Rightarrow> bool" where
  "unrestricted e s \<longleftrightarrow> True"

text \<open>
  An event keeps the two workflows apart when it does not open the form over a pending
  deletion and does not stage a deletion over the open form; every other event does.
  Nothing in the program requires this of an event: \<open>enabled\<close> offers Add Task, Edit
  and Delete whatever the state of the other workflow.
\<close>

fun keeps_apart :: "event \<Rightarrow> AppState \<Rightarrow> bool" where
  "keeps_apart ClickAddTask s \<longleftrightarrow> pendingDeleteTask s = None"
| "keeps_apart (ClickEdit task) s \<longleftrightarrow> pendingDeleteTask s = None"
| "keeps_apart (ClickDelete task) s \<longleftrightarrow> \<not> isFormVisible s"
| "keeps_apart e s \<longleftrightarrow> True"

text \<open>At most one of the task form and the staged deletion is present.\<close>

definition exclusive :: "AppState \<Rightarrow> bool" where
  "exclusive s \<longleftrightarrow> \<not> (isFormVisible s \<and> pendingDeleteTask s \<noteq> None)"

section \<open>The error extractor as the specification words it\<close>

text \<open>
  Written from the specification, for comparison with \<open>extractErrorMessage\<close>: (1) if
  the body parses as JSON and holds a non-empty list under the errors field, each
  entry's message field, joined with a comma and a space; (2) else the message field of
  the body, if it is a string; (3) else the status code and the status text. A body
  that does not parse falls through to (3).
\<close>

definition spec_entry_message :: "json \<Rightarrow> string option" where
  "spec_entry_message entry =
     (case own_property ''msg'' entry of Some (JStr m) \<Rightarrow> Some m | _ \<Rightarrow> None)"

definition spec_message_or_status :: "('a, 'b) response_scheme \<Rightarrow> json \<Rightarrow> string" where
  "spec_message_or_status response payload =
     (case own_property ''message'' payload of
        Some (JStr m) \<Rightarrow> m
      | _ \<Rightarrow> status_line response)"

definition spec_extractErrorMessage :: "('a, 'b) response_scheme \<Rightarrow> string" where
  "spec_extractErrorMessage response =
     (case json response of
        Inl e \<Rightarrow> status_line response
      | Inr payload \<Rightarrow>
          (case own_property ''errors'' payload of
             Some (JArr errs) \<Rightarrow>
               if errs \<noteq> [] then join_strings '', '' (List.map_filter spec_entry_message errs)
               else spec_message_or_status response payload
           | _ \<Rightarrow> spec_message_or_status response payload))"

section \<open>Notions used to state the properties\<close>

text \<open>The state that a session reset with the expiry message leaves behind.\<close>

definition session_reset_state :: "AppState \<Rightarrow> bool" where
  "session_reset_state s \<longleftrightarrow>
     currentUser s = None \<and> tasks s = [] \<and> users s = [] \<and> pendingDeleteTask s = None \<and>
     busyTaskId s = None \<and> \<not> isFormVisible s \<and> editingTask s = None \<and>
     filterOption s = FAll \<and> error s = None \<and> authError s = Some session_expired"


text \<open>A reply with status 401, which the handler delegates to the session controller.\<close>

fun delegated :: "'a fetched \<Rightarrow> bool" where
  "delegated (Rejected e) \<longleftrightarrow> False"
| "delegated (Resolved r) \<longleftrightarrow> status r = 401"


text \<open>
  An entry of the errors list as the annotation \<open>{ msg?: string }\<close> describes it: not
  \<open>null\<close>, and \<open>msg\<close> absent or a string. \<open>nonempty_msg\<close> is its \<open>msg\<close> when that is a string
  with at least one character.
\<close>

definition plain_entry :: "json \<Rightarrow> bool" where
  "plain_entry entry \<longleftrightarrow>
     entry \<noteq> JNull \<and>
     (case own_property ''msg'' entry of None \<Rightarrow> True | Some (JStr m) \<Rightarrow> True | _ \<Rightarrow> False)"

definition nonempty_msg :: "json \<Rightarrow> string option" where
  "nonempty_msg entry =
     (case own_property ''msg'' entry of
        Some (JStr m) \<Rightarrow> if m = [] then None else Some m
      | _ \<Rightarrow> None)"

section \<open>Example values\<close>

definition example_user :: User where
  "example_user =
     \<lparr>user_id = 1, user_name = ''A'', user_email = ''a@b.com'', user_createdAt = None,
      user_updatedAt = None\<rparr>"

definition example_task :: Task where
  "example_task =
     \<lparr>task_id = 7, task_title = ''Ship release'', task_description = None, task_status = Todo,
      task_userId = None, task_assignee = None, task_createdAt = ''2024-05-01T09:00:00.000Z'',
      task_updatedAt = ''2024-05-01T09:00:00.000Z''\<rparr>"

definition second_task :: Task where
  "second_task =
     \<lparr>task_id = 8, task_title = ''Write notes'', task_description = Some ''For the release'',
      task_status = Done, task_userId = Some 1, task_assignee = Some example_user,
      task_createdAt = ''2024-05-02T09:00:00.000Z'',
      task_updatedAt = ''2024-05-03T09:00:00.000Z''\<rparr>"

definition example_payload :: TaskPayload where
  "example_payload =
     \<lparr>payload_title = ''Ship release'', payload_description = None, payload_userId = None,
      payload_status = None\<rparr>"

text \<open>A signed-in workspace with two tasks, a filter and an error banner.\<close>

definition workspace :: AppState where
  "workspace =
     \<lparr>currentUser = Some example_user, authMode = login, authLoading = False,
      authSubmitting = False, authError = None, tasks = [example_task, second_task],
      users = [example_user], filterOption = FStatus Todo, tasksLoading = False,
      usersLoading = False, error = Some ''Failed to load users.'', isFormVisible = False,
      editingTask = None, isSubmitting = False, busyTaskId = None, pendingDeleteTask = None\<rparr>"

text \<open>The same workspace with the form open on task 7.\<close>

definition editing_workspace :: AppState where
  "editing_workspace = workspace\<lparr>isFormVisible := True, editingTask := Some example_task\<rparr>"

text \<open>The documents of the example user and of task 7, as the service sends them.\<close>

definition example_user_json :: json where
  "example_user_json =
     JObj [(''id'', JNum ''1''), (''name'', JStr ''A''), (''email'', JStr ''a@b.com'')]"

definition example_task_json :: json where
  "example_task_json =
     JObj [(''id'', JNum ''7''), (''title'', JStr ''Ship release''), (''description'', JNull),
           (''status'', JStr ''todo''), (''userId'', JNull), (''assignee'', JNull),
           (''createdAt'', JStr ''2024-05-01T09:00:00.000Z''),
           (''updatedAt'', JStr ''2024-05-01T09:00:00.000Z'')]"

definition session_reply :: "AuthResponse response" where
  "session_reply =
     \<lparr>status = 200, statusText = ''OK'', json = Inr (JObj [(''user'', example_user_json)]),
      typed = Inr \<lparr>user = example_user\<rparr>\<rparr>"

definition users_reply :: "User list response" where
  "users_reply =
     \<lparr>status = 200, statusText = ''OK'', json = Inr (JArr [example_user_json]),
      typed = Inr [example_user]\<rparr>"

definition tasks_reply :: "Task list response" where
  "tasks_reply =
     \<lparr>status = 200, statusText = ''OK'', json = Inr (JArr [example_task_json]),
      typed = Inr [example_task]\<rparr>"

definition created_reply :: "unit response" where
  "created_reply =
     \<lparr>status = 201, statusText = ''Created'', json = Inr example_task_json, typed = Inr ()\<rparr>"

text \<open>A 401 reply and a 500 reply, both with a body that is not JSON.\<close>

definition unauthorized_reply :: "'a response" where
  "unauthorized_reply =
     \<lparr>status = 401, statusText = ''Unauthorized'',
      json = Inl (Error ''Unexpected end of JSON input''),
      typed = Inl (Error ''Unexpected end of JSON input'')\<rparr>"

definition server_error_reply :: "'a response" where
  "server_error_reply =
     \<lparr>status = 500, statusText = ''Internal Server Error'',
      json = Inl (Error ''Unexpected token < in JSON at position 0''),
      typed = Inl (Error ''Unexpected token < in JSON at position 0'')\<rparr>"

text \<open>Replies to a mutation that the service refuses.\<close>

definition validation_reply :: "unit response" where
  "validation_reply =
     \<lparr>status = 400, statusText = ''Bad Request'',
      json = Inr (JObj [(''errors'', JArr [JObj [(''msg'', JStr ''Title is required'')],
                                           JObj [(''msg'', JStr ''Status is invalid'')]])]),
      typed = Inr ()\<rparr>"

definition not_found_reply :: "unit response" where
  "not_found_reply =
     \<lparr>status = 404, statusText = ''Not Found'',
      json = Inr (JObj [(''message'', JStr ''Task not found'')]), typed = Inr ()\<rparr>"

definition null_entry_reply :: "unit response" where
  "null_entry_reply =
     \<lparr>status = 400, statusText = ''Bad Request'',
      json = Inr (JObj [(''errors'', JArr [JNull, JObj [(''msg'', JStr ''Title is required'')]])]),
      typed = Inr ()\<rparr>"

definition empty_msg_reply :: "unit response" where
  "empty_msg_reply =
     \<lparr>status = 400, statusText = ''Bad Request'',
      json = Inr (JObj [(''errors'', JArr [JObj [(''msg'', JStr [])],
                                           JObj [(''msg'', JStr ''Title is required'')]])]),
      typed = Inr ()\<rparr>"






text \<open>
  Two runs from the first render: the session check succeeds, both collections load,
  the user asks to delete task 7; in the second run the user then presses Add Task.
\<close>

definition stage_delete :: "event list" where
  "stage_delete =
     [SessionReply (Resolved session_reply), UsersEffect, TasksEffect,
      UsersReply (Resolved users_reply), TasksReply (Resolved tasks_reply),
      ClickDelete example_task]"

definition stage_then_open :: "event list" where
  "stage_then_open = stage_delete @ [ClickAddTask]"

definition loaded :: AppState where
  "loaded =
     \<lparr>currentUser = Some example_user, authMode = login, authLoading = False,
      authSubmitting = False, authError = None, tasks = [example_task],
      users = [example_user], filterOption = FAll, tasksLoading = False,
      usersLoading = False, error = None, isFormVisible = False,
      editingTask = None, isSubmitting = False, busyTaskId = None,
      pendingDeleteTask = None\<rparr>"

definition staged :: AppState where
  "staged = loaded\<lparr>pendingDeleteTask := Some example_task\<rparr>"

definition form_over_pending :: AppState where
  "form_over_pending = staged\<lparr>isFormVisible := True\<rparr>"

section \<open>Properties\<close>

subsection \<open>Replies, classified\<close>

lemma classify_401: "status r = 401 \<Longrightarrow> classify (Resolved r) = Unauthorized"
  by (simp add: classify_def)

lemma classify_failed:
  "\<not> ok r \<Longrightarrow> status r \<noteq> 401 \<Longrightarrow>
     classify (Resolved r) = Failed (Error (extractErrorMessage r))"
  by (simp add: classify_def)

lemma classify_accepted: "ok r \<Longrightarrow> classify (Resolved r) = Accepted r"
  by (auto simp: classify_def ok_def)




lemma ok_replies: "ok session_reply" "ok users_reply" "ok tasks_reply" "ok created_reply"
  by (simp_all add: ok_def session_reply_def users_reply_def tasks_reply_def created_reply_def)

subsection \<open>Session expiry\<close>

lemma reset_state_handleUnauthorized: "session_reset_state (handleUnauthorized s)"
  by (simp add: session_reset_state_def handleUnauthorized_def resetSession_def closeForm_def)

lemma reset_state_frame:
  "session_reset_state s \<Longrightarrow> session_reset_state (s\<lparr>usersLoading := b\<rparr>)"
  "session_reset_state s \<Longrightarrow> session_reset_state (s\<lparr>tasksLoading := b\<rparr>)"
  "session_reset_state s \<Longrightarrow> session_reset_state (s\<lparr>isSubmitting := b\<rparr>)"
  "session_reset_state s \<Longrightarrow> session_reset_state (s\<lparr>busyTaskId := None\<rparr>)"
  "session_reset_state s \<Longrightarrow> session_reset_state (s\<lparr>pendingDeleteTask := None\<rparr>)"
  "session_reset_state s \<Longrightarrow> session_reset_state (closeForm s)"
  by (simp_all add: session_reset_state_def closeForm_def)

text \<open>
  Claim C1. A 401 reply to any of the six authenticated requests (user list, task list,
  create, update, patch-status, delete) makes the handler call \<open>resetSession\<close> with the
  fixed expiry message and then only run its \<open>finally\<close> clause. In the state that
  results the identity is absent, the task and user collections are empty, no deletion
  is pending, the busy marker is absent, the form is closed, the filter is \<open>all\<close> and the
  caller's error banner is not set; the expiry message is in \<open>authError\<close>. The same state
  results when the 401 answers the refresh that follows an accepted mutation.
\<close>

theorem unauthorized_resets_session:
  assumes u: "status ru = 401" and t: "status rt = 401" and m: "status rm = 401"
  shows
    "(loadUsers_resume (Resolved ru) s =
        (resetSession (Some session_expired) s)\<lparr>usersLoading := False\<rparr> \<and>
      refreshTasks_resume (Resolved rt) s =
        (resetSession (Some session_expired) s)\<lparr>tasksLoading := False\<rparr> \<and>
      handleCreateTask_response (Resolved rm) s =
        Finished ((resetSession (Some session_expired) s)\<lparr>isSubmitting := False\<rparr>) \<and>
      handleUpdateTask_response (Resolved rm) s =
        Finished ((resetSession (Some session_expired) s)\<lparr>isSubmitting := False\<rparr>) \<and>
      handleUpdateStatus_response (Resolved rm) s =
        Finished ((resetSession (Some session_expired) s)\<lparr>busyTaskId := None\<rparr>) \<and>
      handleConfirmDelete_response (Resolved rm) s =
        Finished ((resetSession (Some session_expired) s)\<lparr>busyTaskId := None\<rparr>)) \<and>
     (session_reset_state (loadUsers_resume (Resolved ru) s) \<and>
      session_reset_state (refreshTasks_resume (Resolved rt) s) \<and>
      session_reset_state (state_of (handleCreateTask_response (Resolved rm) s)) \<and>
      session_reset_state (state_of (handleUpdateTask_response (Resolved rm) s)) \<and>
      session_reset_state (state_of (handleUpdateStatus_response (Resolved rm) s)) \<and>
      session_reset_state (state_of (handleConfirmDelete_response (Resolved rm) s))) \<and>
     (session_reset_state (handleCreateTask_refreshed (Resolved rt) s) \<and>
      session_reset_state (handleUpdateTask_refreshed (Resolved rt) s) \<and>
      session_reset_state (handleUpdateStatus_refreshed (Resolved rt) s) \<and>
      session_reset_state (handleConfirmDelete_refreshed (Resolved rt) s))"
proof -
  let ?reset = "resetSession (Some session_expired) s"
  have eqs:
    "loadUsers_resume (Resolved ru) s = ?reset\<lparr>usersLoading := False\<rparr>"
    "refreshTasks_resume (Resolved rt) s = ?reset\<lparr>tasksLoading := False\<rparr>"
    "handleCreateTask_response (Resolved rm) s = Finished (?reset\<lparr>isSubmitting := False\<rparr>)"
    "handleUpdateTask_response (Resolved rm) s = Finished (?reset\<lparr>isSubmitting := False\<rparr>)"
    "handleUpdateStatus_response (Resolved rm) s = Finished (?reset\<lparr>busyTaskId := None\<rparr>)"
    "handleConfirmDelete_response (Resolved rm) s = Finished (?reset\<lparr>busyTaskId := None\<rparr>)"
    using u t m
    by (simp_all add: loadUsers_resume_def refreshTasks_resume_def handleCreateTask_response_def
        handleUpdateTask_response_def handleUpdateStatus_response_def
        handleConfirmDelete_response_def classify_401 handleUnauthorized_def)
  have reset: "session_reset_state ?reset"
    using reset_state_handleUnauthorized [of s] by (simp add: handleUnauthorized_def)
  have finals:
    "session_reset_state (?reset\<lparr>usersLoading := False\<rparr>)"
    "session_reset_state (?reset\<lparr>tasksLoading := False\<rparr>)"
    "session_reset_state (?reset\<lparr>isSubmitting := False\<rparr>)"
    "session_reset_state (?reset\<lparr>busyTaskId := None\<rparr>)"
    using reset by (simp_all add: reset_state_frame)
  have r: "session_reset_state (refreshTasks_resume (Resolved rt) s)"
    using finals(2) by (simp add: eqs(2))
  have refreshed:
    "session_reset_state (handleCreateTask_refreshed (Resolved rt) s)"
    "session_reset_state (handleUpdateTask_refreshed (Resolved rt) s)"
    "session_reset_state (handleUpdateStatus_refreshed (Resolved rt) s)"
    "session_reset_state (handleConfirmDelete_refreshed (Resolved rt) s)"
    using r
    by (simp_all add: handleCreateTask_refreshed_def handleUpdateTask_refreshed_def
        handleUpdateStatus_refreshed_def handleConfirmDelete_refreshed_def reset_state_frame)
  show ?thesis
    using finals refreshed by (simp add: eqs)
qed

text \<open>
  The theorem at a 401 reply with an empty body: to the user-list fetch while it loads,
  to a delete in flight for task 7, and to the refresh after a create with the form open.
\<close>

theorem unauthorized_resets_session_witness:
  "session_reset_state
     (loadUsers_resume (Resolved unauthorized_reply) (workspace\<lparr>usersLoading := True\<rparr>)) \<and>
   session_reset_state
     (state_of (handleConfirmDelete_response (Resolved unauthorized_reply)
        (workspace\<lparr>pendingDeleteTask := Some example_task, busyTaskId := Some 7\<rparr>))) \<and>
   session_reset_state
     (handleCreateTask_refreshed (Resolved unauthorized_reply)
        (workspace\<lparr>isFormVisible := True, isSubmitting := True, tasksLoading := True\<rparr>))"
proof -
  have u: "status (unauthorized_reply :: User list response) = 401"
    and t: "status (unauthorized_reply :: Task list response) = 401"
    and m: "status (unauthorized_reply :: unit response) = 401"
    by (simp_all add: unauthorized_reply_def)
  show ?thesis
    using unauthorized_resets_session [OF u t m, of "workspace\<lparr>usersLoading := True\<rparr>"]
      unauthorized_resets_session [OF u t m,
        of "workspace\<lparr>pendingDeleteTask := Some example_task, busyTaskId := Some 7\<rparr>"]
      unauthorized_resets_session [OF u t m,
        of "workspace\<lparr>isFormVisible := True, isSubmitting := True, tasksLoading := True\<rparr>"]
    by blast
qed

subsection \<open>The busy marker\<close>

text \<open>
  Claim C2, as stated, fails for create and update. With the form open on task 7 an
  update issues its request for task 7 and the busy marker stays absent; a create
  issues its request and the busy marker stays absent as well.
\<close>

theorem busy_marker_counterexample:
  "request_of (handleUpdateTask_begin example_payload editing_workspace) =
     Some (PutTask 7 (example_payload\<lparr>payload_status := Some Todo\<rparr>)) \<and>
   busyTaskId (state_of (handleUpdateTask_begin example_payload editing_workspace)) = None \<and>
   request_of (handleCreateTask_begin example_payload workspace) =
     Some (PostTask (example_payload\<lparr>payload_status := Some Todo\<rparr>)) \<and>
   busyTaskId (state_of (handleCreateTask_begin example_payload workspace)) = None"
  by (simp add: handleUpdateTask_begin_def handleCreateTask_begin_def editing_workspace_def
      workspace_def example_task_def example_payload_def)

lemma busy_after_refresh:
  "busyTaskId (refreshTasks_resume g s) = (if delegated g then None else busyTaskId s)"
proof (cases g)
  case (Rejected e)
  then show ?thesis
    by (simp add: refreshTasks_resume_def classify_def)
next
  case (Resolved r)
  then show ?thesis
    by (simp add: refreshTasks_resume_def classify_def handleUnauthorized_def resetSession_def
        closeForm_def split: sum.split)
qed

lemma busy_after_form_reply:
  "busyTaskId (state_of (handleCreateTask_response f s)) =
     (if delegated f then None else busyTaskId s)"
  "busyTaskId (state_of (handleUpdateTask_response f s)) =
     (if delegated f then None else busyTaskId s)"
  by (cases f;
      simp add: handleCreateTask_response_def handleUpdateTask_response_def classify_def
        refreshTasks_begin_def handleUnauthorized_def resetSession_def closeForm_def)+

text \<open>
  Claim C2, amended. Patch-status and delete set the busy marker to the id of their
  target at the start of the call, keep it while the refresh is awaited, and clear it
  as the last step on every path: success, failure or delegated 401. Create and update
  never set the busy marker: at the start of the call, while the refresh is awaited and
  at the end, on success and on failure, it is what it was before; only a delegated
  401, to the mutation or to its refresh, clears it, through the session reset. What
  create and update hold instead is the flag \<open>isSubmitting\<close>: they raise it at the start,
  keep it while the refresh is awaited, and lower it as the last step on every path.
\<close>

theorem busy_marker_of_mutations:
  "(busyTaskId (state_of (handleUpdateStatus_begin task nextStatus s)) = Some (task_id task) \<and>
    request_of (handleUpdateStatus_begin task nextStatus s) =
      Some (PatchTask (task_id task) nextStatus) \<and>
    (pendingDeleteTask s = Some task \<longrightarrow>
       busyTaskId (state_of (handleConfirmDelete_begin s)) = Some (task_id task) \<and>
       request_of (handleConfirmDelete_begin s) = Some (DeleteTask (task_id task)))) \<and>
   ((case handleUpdateStatus_response f s of
       Finished s' \<Rightarrow> busyTaskId s' = None
     | Awaiting s' q \<Rightarrow> q = GetTasks \<and> busyTaskId s' = busyTaskId s) \<and>
    (case handleConfirmDelete_response f s of
       Finished s' \<Rightarrow> busyTaskId s' = None
     | Awaiting s' q \<Rightarrow> q = GetTasks \<and> busyTaskId s' = busyTaskId s) \<and>
    busyTaskId (handleUpdateStatus_refreshed g s) = None \<and>
    busyTaskId (handleConfirmDelete_refreshed g s) = None) \<and>
   (busyTaskId (state_of (handleCreateTask_begin payload s)) = busyTaskId s \<and>
    isSubmitting (state_of (handleCreateTask_begin payload s)) \<and>
    (editingTask s \<noteq> None \<longrightarrow>
       busyTaskId (state_of (handleUpdateTask_begin payload s)) = busyTaskId s \<and>
       isSubmitting (state_of (handleUpdateTask_begin payload s)))) \<and>
   ((case handleCreateTask_response f s of
       Finished s' \<Rightarrow> \<not> isSubmitting s'
     | Awaiting s' q \<Rightarrow>
         q = GetTasks \<and> isSubmitting s' = isSubmitting s \<and> busyTaskId s' = busyTaskId s) \<and>
    (case handleUpdateTask_response f s of
       Finished s' \<Rightarrow> \<not> isSubmitting s'
     | Awaiting s' q \<Rightarrow>
         q = GetTasks \<and> isSubmitting s' = isSubmitting s \<and> busyTaskId s' = busyTaskId s) \<and>
    \<not> isSubmitting (handleCreateTask_refreshed g s) \<and>
    \<not> isSubmitting (handleUpdateTask_refreshed g s)) \<and>
   (busyTaskId (state_of (handleUpdateTask_begin payload s)) = busyTaskId s \<and>
    busyTaskId (state_of (handleCreateTask_response f s)) =
      (if delegated f then None else busyTaskId s) \<and>
    busyTaskId (state_of (handleUpdateTask_response f s)) =
      (if delegated f then None else busyTaskId s) \<and>
    busyTaskId (handleCreateTask_refreshed g s) =
      (if delegated g then None else busyTaskId s) \<and>
    busyTaskId (handleUpdateTask_refreshed g s) =
      (if delegated g then None else busyTaskId s))"
proof -
  have begins:
    "busyTaskId (state_of (handleUpdateStatus_begin task nextStatus s)) = Some (task_id task)"
    "request_of (handleUpdateStatus_begin task nextStatus s) =
       Some (PatchTask (task_id task) nextStatus)"
    "pendingDeleteTask s = Some task \<longrightarrow>
       busyTaskId (state_of (handleConfirmDelete_begin s)) = Some (task_id task) \<and>
       request_of (handleConfirmDelete_begin s) = Some (DeleteTask (task_id task))"
    "busyTaskId (state_of (handleCreateTask_begin payload s)) = busyTaskId s"
    "isSubmitting (state_of (handleCreateTask_begin payload s))"
    "editingTask s \<noteq> None \<longrightarrow>
       busyTaskId (state_of (handleUpdateTask_begin payload s)) = busyTaskId s \<and>
       isSubmitting (state_of (handleUpdateTask_begin payload s))"
    by (auto simp: handleUpdateStatus_begin_def handleConfirmDelete_begin_def
        handleCreateTask_begin_def handleUpdateTask_begin_def)
  have responses:
    "case handleUpdateStatus_response f s of
       Finished s' \<Rightarrow> busyTaskId s' = None
     | Awaiting s' q \<Rightarrow> q = GetTasks \<and> busyTaskId s' = busyTaskId s"
    "case handleConfirmDelete_response f s of
       Finished s' \<Rightarrow> busyTaskId s' = None
     | Awaiting s' q \<Rightarrow> q = GetTasks \<and> busyTaskId s' = busyTaskId s"
    "case handleCreateTask_response f s of
       Finished s' \<Rightarrow> \<not> isSubmitting s'
     | Awaiting s' q \<Rightarrow>
         q = GetTasks \<and> isSubmitting s' = isSubmitting s \<and> busyTaskId s' = busyTaskId s"
    "case handleUpdateTask_response f s of
       Finished s' \<Rightarrow> \<not> isSubmitting s'
     | Awaiting s' q \<Rightarrow>
         q = GetTasks \<and> isSubmitting s' = isSubmitting s \<and> busyTaskId s' = busyTaskId s"
    by (simp_all add: handleUpdateStatus_response_def handleConfirmDelete_response_def
        handleCreateTask_response_def handleUpdateTask_response_def refreshTasks_begin_def
        split: reply.split)
  have finals:
    "busyTaskId (handleUpdateStatus_refreshed g s) = None"
    "busyTaskId (handleConfirmDelete_refreshed g s) = None"
    "\<not> isSubmitting (handleCreateTask_refreshed g s)"
    "\<not> isSubmitting (handleUpdateTask_refreshed g s)"
    by (simp_all add: handleUpdateStatus_refreshed_def handleConfirmDelete_refreshed_def
        handleCreateTask_refreshed_def handleUpdateTask_refreshed_def)
  have untouched:
    "busyTaskId (state_of (handleUpdateTask_begin payload s)) = busyTaskId s"
    "busyTaskId (state_of (handleCreateTask_response f s)) =
      (if delegated f then None else busyTaskId s)"
    "busyTaskId (state_of (handleUpdateTask_response f s)) =
      (if delegated f then None else busyTaskId s)"
    "busyTaskId (handleCreateTask_refreshed g s) =
      (if delegated g then None else busyTaskId s)"
    "busyTaskId (handleUpdateTask_refreshed g s) =
      (if delegated g then None else busyTaskId s)"
    by (simp_all add: busy_after_form_reply handleCreateTask_refreshed_def
        handleUpdateTask_refreshed_def closeForm_def busy_after_refresh
        handleUpdateTask_begin_def split: option.split)
  show ?thesis
    using begins responses finals untouched by blast
qed

text \<open>
  The theorem on a delete of task 7 that the service refuses with a 500, and on an
  update of task 7 while the busy marker is 8: the delete holds the marker 7 and
  releases it; the update holds only \<open>isSubmitting\<close> and the marker stays 8 when the
  service refuses the update with a 400 and when the refresh delivers the list, and is
  cleared when the service answers 401.
\<close>

theorem busy_marker_of_mutations_witness:
  "pendingDeleteTask (workspace\<lparr>pendingDeleteTask := Some example_task\<rparr>) = Some example_task \<and>
   busyTaskId (state_of (handleConfirmDelete_begin
      (workspace\<lparr>pendingDeleteTask := Some example_task\<rparr>))) = Some 7 \<and>
   request_of (handleConfirmDelete_begin
      (workspace\<lparr>pendingDeleteTask := Some example_task\<rparr>)) = Some (DeleteTask 7) \<and>
   busyTaskId (state_of (handleConfirmDelete_response (Resolved server_error_reply)
      (workspace\<lparr>pendingDeleteTask := Some example_task, busyTaskId := Some 7\<rparr>))) = None \<and>
   editingTask editing_workspace \<noteq> None \<and>
   busyTaskId (state_of (handleUpdateTask_begin example_payload editing_workspace)) = None \<and>
   isSubmitting (state_of (handleUpdateTask_begin example_payload editing_workspace)) \<and>
   busyTaskId (state_of (handleUpdateTask_begin example_payload
      (editing_workspace\<lparr>busyTaskId := Some 8\<rparr>))) = Some 8 \<and>
   busyTaskId (state_of (handleUpdateTask_response (Resolved validation_reply)
      (editing_workspace\<lparr>busyTaskId := Some 8\<rparr>))) = Some 8 \<and>
   busyTaskId (handleUpdateTask_refreshed (Resolved tasks_reply)
      (editing_workspace\<lparr>busyTaskId := Some 8\<rparr>)) = Some 8 \<and>
   busyTaskId (state_of (handleUpdateTask_response (Resolved unauthorized_reply)
      (editing_workspace\<lparr>busyTaskId := Some 8\<rparr>))) = None"
proof -
  let ?staged = "workspace\<lparr>pendingDeleteTask := Some example_task\<rparr>"
  let ?busy = "workspace\<lparr>pendingDeleteTask := Some example_task, busyTaskId := Some 7\<rparr>"
  let ?other = "editing_workspace\<lparr>busyTaskId := Some 8\<rparr>"
  let ?refused = "Resolved server_error_reply :: unit fetched"
  let ?invalid = "Resolved validation_reply"
  let ?expired = "Resolved unauthorized_reply :: unit fetched"
  let ?list = "Resolved tasks_reply"
  have p: "pendingDeleteTask ?staged = Some example_task"
    by simp
  have e: "editingTask editing_workspace \<noteq> None" "busyTaskId editing_workspace = None"
    by (simp_all add: editing_workspace_def workspace_def)
  have i: "task_id example_task = 7"
    by (simp add: example_task_def)
  have r: "handleConfirmDelete_response ?refused ?busy =
      Finished (?busy\<lparr>error := Some (extractErrorMessage (server_error_reply :: unit response)),
                       busyTaskId := None\<rparr>)"
    by (simp add: handleConfirmDelete_response_def classify_failed server_error_reply_def ok_def)
  have d: "\<not> delegated ?invalid" "\<not> delegated ?list" "delegated ?expired"
    by (simp_all add: validation_reply_def tasks_reply_def unauthorized_reply_def)
  note at_staged = busy_marker_of_mutations [where s = ?staged and task = example_task
      and nextStatus = Done and f = ?refused and g = ?list and payload = example_payload]
  note at_busy = busy_marker_of_mutations [where s = ?busy and task = example_task
      and nextStatus = Done and f = ?refused and g = ?list and payload = example_payload]
  note at_editing = busy_marker_of_mutations [where s = editing_workspace
      and task = example_task and nextStatus = Done and f = ?refused and g = ?list
      and payload = example_payload]
  note at_other = busy_marker_of_mutations [where s = ?other and task = example_task
      and nextStatus = Done and f = ?invalid and g = ?list and payload = example_payload]
  note at_expired = busy_marker_of_mutations [where s = ?other and task = example_task
      and nextStatus = Done and f = ?expired and g = ?list and payload = example_payload]
  from at_staged [THEN conjunct1] p i
  have 1: "busyTaskId (state_of (handleConfirmDelete_begin ?staged)) = Some 7 \<and>
      request_of (handleConfirmDelete_begin ?staged) = Some (DeleteTask 7)"
    by simp
  from at_busy [THEN conjunct2, THEN conjunct1]
  have 2: "busyTaskId (state_of (handleConfirmDelete_response ?refused ?busy)) = None"
    by (simp add: r)
  from at_editing [THEN conjunct2, THEN conjunct2, THEN conjunct1] e
  have 3: "busyTaskId (state_of (handleUpdateTask_begin example_payload editing_workspace)) = None \<and>
      isSubmitting (state_of (handleUpdateTask_begin example_payload editing_workspace))"
    by simp
  from at_other [THEN conjunct2, THEN conjunct2, THEN conjunct2, THEN conjunct2] d
  have 4: "busyTaskId (state_of (handleUpdateTask_begin example_payload ?other)) = Some 8 \<and>
      busyTaskId (state_of (handleUpdateTask_response ?invalid ?other)) = Some 8 \<and>
      busyTaskId (handleUpdateTask_refreshed ?list ?other) = Some 8"
    by simp
  from at_expired [THEN conjunct2, THEN conjunct2, THEN conjunct2, THEN conjunct2] d
  have 5: "busyTaskId (state_of (handleUpdateTask_response ?expired ?other)) = None"
    by simp
  show ?thesis
    using p e(1) 1 2 3 4 5 by simp
qed

subsection \<open>Refresh after a mutation\<close>



subsection \<open>Kanban categorizer\<close>

lemma view_of_column:
  "view_key (render_column ts f busy c) = col_key c"
  "view_tasks (render_column ts f busy c) = filter (col_matcher c) ts"
  "view_count (render_column ts f busy c) = length (filter (col_matcher c) ts)"
  "view_muted (render_column ts f busy c) \<longleftrightarrow> f \<noteq> FAll \<and> f \<noteq> FStatus (col_key c)"
  by (simp_all add: view_tasks_def render_column_def Let_def render_card_def comp_def)

lemma TaskList_keys: "map view_key (TaskList ts f busy) = [Todo, In_progress, Done]"
  by (simp add: TaskList_def columns_def view_of_column)

lemma TaskList_tasks:
  "map view_tasks (TaskList ts f busy) =
     [filter (\<lambda>t. task_status t = Todo) ts, filter (\<lambda>t. task_status t = In_progress) ts,
      filter (\<lambda>t. task_status t = Done) ts]"
  by (simp add: TaskList_def columns_def view_of_column)

lemma TaskList_column:
  "v \<in> set (TaskList ts f busy) \<Longrightarrow>
     view_tasks v = filter (\<lambda>t. task_status t = view_key v) ts \<and>
     view_count v = length (view_tasks v)"
  by (auto simp: TaskList_def columns_def view_of_column)

lemma mset_three_columns:
  "mset (filter (\<lambda>t. task_status t = Todo) ts) +
     (mset (filter (\<lambda>t. task_status t = In_progress) ts) +
      mset (filter (\<lambda>t. task_status t = Done) ts)) = mset ts"
proof (induction ts)
  case Nil
  show ?case by simp
next
  case (Cons t ts)
  then show ?case by (cases "task_status t") (simp_all add: add.assoc)
qed

text \<open>
  Claim C4. For every task collection and every filter, \<open>TaskList\<close> renders the three
  columns todo, in_progress and done in this order; each column holds, in the order of
  the collection, exactly the tasks whose status is its key, and shows their number;
  each task is in exactly one column; the columns together hold the collection, each
  task as often as the collection does; and the keys, the tasks and the counts of the
  columns are the same for any two filters.
\<close>

theorem kanban_partition:
  "map view_key (TaskList ts f busy) = [Todo, In_progress, Done] \<and>
   (\<forall>v \<in> set (TaskList ts f busy).
       view_tasks v = filter (\<lambda>t. task_status t = view_key v) ts \<and>
       view_count v = length (view_tasks v)) \<and>
   (\<forall>t \<in> set ts. \<exists>!v. v \<in> set (TaskList ts f busy) \<and> t \<in> set (view_tasks v)) \<and>
   mset (concat (map view_tasks (TaskList ts f busy))) = mset ts \<and>
   map (\<lambda>v. (view_key v, view_tasks v, view_count v)) (TaskList ts f busy) =
   map (\<lambda>v. (view_key v, view_tasks v, view_count v)) (TaskList ts f' busy)"
proof (intro conjI)
  let ?views = "TaskList ts f busy"
  show keys: "map view_key ?views = [Todo, In_progress, Done]"
    by (rule TaskList_keys)
  show cols: "\<forall>v \<in> set ?views.
       view_tasks v = filter (\<lambda>t. task_status t = view_key v) ts \<and>
       view_count v = length (view_tasks v)"
    by (simp add: TaskList_column)
  show "mset (concat (map view_tasks ?views)) = mset ts"
    using mset_three_columns [of ts] by (simp add: TaskList_tasks)
  show "map (\<lambda>v. (view_key v, view_tasks v, view_count v)) ?views =
   map (\<lambda>v. (view_key v, view_tasks v, view_count v)) (TaskList ts f' busy)"
    by (simp add: TaskList_def columns_def view_of_column)
  show "\<forall>t \<in> set ts. \<exists>!v. v \<in> set ?views \<and> t \<in> set (view_tasks v)"
  proof
    fix t assume t: "t \<in> set ts"
    have "distinct (map view_key ?views)"
      by (simp add: keys)
    then have inj: "inj_on view_key (set ?views)"
      by (simp add: distinct_map)
    have "task_status t \<in> set (map view_key ?views)"
      by (cases "task_status t") (simp_all add: keys)
    then obtain v where v: "v \<in> set ?views" "view_key v = task_status t"
      by auto
    have mem: "t \<in> set (view_tasks w) \<longleftrightarrow> view_key w = task_status t"
      if "w \<in> set ?views" for w
      using cols that t by auto
    show "\<exists>!v. v \<in> set ?views \<and> t \<in> set (view_tasks v)"
    proof (rule ex1I [of _ v])
      show "v \<in> set ?views \<and> t \<in> set (view_tasks v)"
        using v mem by simp
    next
      fix w assume "w \<in> set ?views \<and> t \<in> set (view_tasks w)"
      then have "w \<in> set ?views" "view_key w = view_key v"
        using mem [of w] v by auto
      with inj v(1) show "w = v"
        by (simp add: inj_on_def)
    qed
  qed
qed

text \<open>
  The board of the example workspace under the filter \<open>done\<close> and under no filter: task 7
  is in the first column, task 8 in the third, and only the muting differs.
\<close>

theorem kanban_partition_witness:
  "map (\<lambda>v. (view_key v, view_tasks v, view_count v))
     (TaskList [example_task, second_task] (FStatus Done) None) =
     [(Todo, [example_task], 1), (In_progress, [], 0), (Done, [second_task], 1)] \<and>
   map (\<lambda>v. (view_key v, view_tasks v, view_count v))
     (TaskList [example_task, second_task] FAll None) =
     [(Todo, [example_task], 1), (In_progress, [], 0), (Done, [second_task], 1)] \<and>
   map view_muted (TaskList [example_task, second_task] (FStatus Done) None) =
     [True, True, False] \<and>
   map view_muted (TaskList [example_task, second_task] FAll None) = [False, False, False]"
proof -
  have s: "task_status example_task = Todo" "task_status second_task = Done"
    by (simp_all add: example_task_def second_task_def)
  have a: "map (\<lambda>v. (view_key v, view_tasks v, view_count v))
     (TaskList [example_task, second_task] FAll None) =
     [(Todo, [example_task], 1), (In_progress, [], 0), (Done, [second_task], 1)]"
    by (simp add: TaskList_def columns_def view_of_column s)
  have m: "map view_muted (TaskList [example_task, second_task] (FStatus Done) None) =
     [True, True, False]"
    "map view_muted (TaskList [example_task, second_task] FAll None) = [False, False, False]"
    by (simp_all add: TaskList_def columns_def view_of_column)
  show ?thesis
    using kanban_partition [of "[example_task, second_task]" "FStatus Done" None FAll]
    by (simp add: a m)
qed

subsection \<open>Two-phase deletion\<close>

text \<open>
  Claim C5. \<open>handleCancelDelete\<close> clears the staged deletion and changes nothing else,
  except when the busy marker is the id of the staged task: then the call changes
  nothing and the deletion stays staged. With no deletion staged it changes nothing.
\<close>

theorem cancelDelete_unless_in_flight:
  "handleCancelDelete s =
     (if \<exists>task. pendingDeleteTask s = Some task \<and> busyTaskId s = Some (task_id task)
      then s else s\<lparr>pendingDeleteTask := None\<rparr>) \<and>
   (pendingDeleteTask s = None \<longrightarrow> handleCancelDelete s = s)"
  by (auto simp: handleCancelDelete_def split: option.splits)

text \<open>
  The scenario of the specification: task 7 is staged and the busy marker is 7, so the
  cancel is ignored; without the busy marker the staged deletion is cleared.
\<close>

theorem cancelDelete_unless_in_flight_witness:
  "handleCancelDelete (workspace\<lparr>busyTaskId := Some 7, pendingDeleteTask := Some example_task\<rparr>) =
     workspace\<lparr>busyTaskId := Some 7, pendingDeleteTask := Some example_task\<rparr> \<and>
   pendingDeleteTask
     (handleCancelDelete (workspace\<lparr>busyTaskId := Some 7, pendingDeleteTask := Some example_task\<rparr>)) =
     Some example_task \<and>
   handleCancelDelete (workspace\<lparr>pendingDeleteTask := Some example_task\<rparr>) =
     workspace\<lparr>pendingDeleteTask := None\<rparr> \<and>
   handleCancelDelete workspace = workspace"
  using cancelDelete_unless_in_flight
      [of "workspace\<lparr>busyTaskId := Some 7, pendingDeleteTask := Some example_task\<rparr>"]
    cancelDelete_unless_in_flight [of "workspace\<lparr>pendingDeleteTask := Some example_task\<rparr>"]
    cancelDelete_unless_in_flight [of workspace]
  by (simp add: workspace_def example_task_def)

text \<open>
  Claim C10. \<open>handleConfirmDelete\<close> with no deletion staged returns at once: it issues no
  request, does not set the busy marker and leaves the whole state as it was.
\<close>

theorem confirmDelete_without_pending:
  "pendingDeleteTask s = None \<Longrightarrow>
     handleConfirmDelete_begin s = Finished s \<and>
     request_of (handleConfirmDelete_begin s) = None \<and>
     state_of (handleConfirmDelete_begin s) = s \<and>
     busyTaskId (state_of (handleConfirmDelete_begin s)) = busyTaskId s"
  by (simp add: handleConfirmDelete_begin_def)

theorem confirmDelete_without_pending_witness:
  "pendingDeleteTask workspace = None \<and>
   handleConfirmDelete_begin workspace = Finished workspace \<and>
   request_of (handleConfirmDelete_begin workspace) = None"
proof -
  have p: "pendingDeleteTask workspace = None"
    by (simp add: workspace_def)
  show ?thesis
    using p confirmDelete_without_pending [OF p] by simp
qed

subsection \<open>Failed calls\<close>



subsection \<open>Error extractor\<close>

lemma show_nat_examples: "show_nat 400 = ''400''" "show_nat 404 = ''404''" "show_nat 500 = ''500''"
  by code_simp+

lemma member_access_those:
  "those (map (member_access k) errs) =
     (if JNull \<in> set errs then None else Some (map (own_property k) errs))"
proof (induction errs)
  case Nil
  show ?case by simp
next
  case (Cons e errs)
  then show ?case by (cases e) auto
qed

lemma errors_branch_eq:
  "errors_branch errs =
     (if JNull \<in> set errs then Threw
      else case js_join '', '' (filter js_Boolean (map (own_property ''msg'') errs)) of
             None \<Rightarrow> Threw
           | Some s \<Rightarrow> Returned s)"
  by (simp add: errors_branch_def member_access_those)

lemma plain_those:
  "\<forall>e \<in> set errs. plain_entry e \<Longrightarrow>
   those (map join_element (filter js_Boolean (map (own_property ''msg'') errs))) =
     Some (List.map_filter nonempty_msg errs)"
proof (induction errs)
  case Nil
  show ?case by simp
next
  case (Cons e errs)
  then have IH: "those (map join_element (filter js_Boolean (map (own_property ''msg'') errs))) =
     Some (List.map_filter nonempty_msg errs)"
    by simp
  from Cons.prems have p: "plain_entry e"
    by simp
  show ?case
  proof (cases "own_property ''msg'' e")
    case None
    then have "nonempty_msg e = None"
      by (simp add: nonempty_msg_def)
    with None IH show ?thesis
      by simp
  next
    case (Some v)
    with p obtain m where v: "v = JStr m"
      by (cases v) (simp_all add: plain_entry_def)
    have "nonempty_msg e = (if m = [] then None else Some m)"
      using Some v by (simp add: nonempty_msg_def)
    with Some v IH show ?thesis
      by simp
  qed
qed

lemma plain_join:
  "\<forall>e \<in> set errs. plain_entry e \<Longrightarrow>
   js_join sep (filter js_Boolean (map (own_property ''msg'') errs)) =
     Some (join_strings sep (List.map_filter nonempty_msg errs))"
  by (simp add: js_join_def plain_those)

lemma plain_no_null: "\<forall>e \<in> set errs. plain_entry e \<Longrightarrow> JNull \<notin> set errs"
  by (auto simp: plain_entry_def)

text \<open>
  Claim C7, as stated, fails. A 400 reply whose errors list is \<open>[null, {msg: "Title is
  required"}]\<close> parses as JSON and holds a non-empty errors list, so the claim gives the
  joined messages, \<open>Title is required\<close>; the code throws on \<open>null.msg\<close>, catches, and
  returns the status line.
\<close>

theorem extractErrorMessage_counterexample:
  "extractErrorMessage null_entry_reply = ''400 Bad Request'' \<and>
   spec_extractErrorMessage null_entry_reply = ''Title is required'' \<and>
   extractErrorMessage null_entry_reply \<noteq> spec_extractErrorMessage null_entry_reply"
proof -
  have a: "extractErrorMessage null_entry_reply = status_line null_entry_reply"
    by (simp add: extractErrorMessage_def extract_try_def errors_branch_def null_entry_reply_def)
  have b: "spec_extractErrorMessage null_entry_reply = ''Title is required''"
    by (simp add: spec_extractErrorMessage_def null_entry_reply_def spec_entry_message_def)
  have c: "status_line null_entry_reply = ''400 Bad Request''"
    by (simp add: status_line_def null_entry_reply_def show_nat_examples)
  show ?thesis
    by (simp add: a b c)
qed

text \<open>
  The code also drops the entries whose message is empty before it joins: for the list
  \<open>[{msg: ""}, {msg: "Title is required"}]\<close> it returns \<open>Title is required\<close>, where joining
  the two message fields gives \<open>, Title is required\<close>.
\<close>

lemma extractErrorMessage_drops_empty:
  "extractErrorMessage empty_msg_reply = ''Title is required'' \<and>
   spec_extractErrorMessage empty_msg_reply = '', Title is required''"
  by (simp add: extractErrorMessage_def extract_try_def errors_branch_def js_join_def
      spec_extractErrorMessage_def spec_entry_message_def empty_msg_reply_def)

text \<open>
  Claim C7, amended. \<open>extractErrorMessage\<close> is total: for every response it returns a
  string and raises nothing. If the body does not parse as JSON, the result is the
  status code and the status text. If the body parses and holds a non-empty array under
  \<open>errors\<close>, the result is the \<open>msg\<close> values of the entries, the falsy ones left out
  (absent, \<open>null\<close>, \<open>false\<close>, zero and the empty string), rendered as text and joined with a
  comma and a space; when an entry is \<open>null\<close> or a value cannot be rendered, the result
  is the status line instead. In particular, for entries that are not \<open>null\<close> and whose
  \<open>msg\<close> is absent or a string, the result is the non-empty messages joined. Otherwise the
  result is the \<open>message\<close> of the body if that is a string, and the status line if not.
\<close>

theorem extractErrorMessage_priority:
  "(json r = Inl e \<longrightarrow> extractErrorMessage r = status_line r) \<and>
   (json r = Inr payload \<and> optional_chain ''errors'' payload = Some (JArr errs) \<and> errs \<noteq> [] \<longrightarrow>
      extractErrorMessage r =
        (if JNull \<in> set errs then status_line r
         else case js_join '', '' (filter js_Boolean (map (own_property ''msg'') errs)) of
                None \<Rightarrow> status_line r
              | Some s \<Rightarrow> s) \<and>
      ((\<forall>entry \<in> set errs. plain_entry entry) \<longrightarrow>
         extractErrorMessage r = join_strings '', '' (List.map_filter nonempty_msg errs))) \<and>
   (json r = Inr payload \<and>
    (\<forall>errs. optional_chain ''errors'' payload = Some (JArr errs) \<longrightarrow> errs = []) \<longrightarrow>
      extractErrorMessage r =
        (case optional_chain ''message'' payload of
           Some (JStr m) \<Rightarrow> m
         | _ \<Rightarrow> status_line r))"
proof (intro conjI impI)
  assume "json r = Inl e"
  then show "extractErrorMessage r = status_line r"
    by (simp add: extractErrorMessage_def extract_try_def)
next
  assume a: "json r = Inr payload \<and> optional_chain ''errors'' payload = Some (JArr errs) \<and>
    errs \<noteq> []"
  then have t: "extract_try r = errors_branch errs"
    by (simp add: extract_try_def)
  show g: "extractErrorMessage r =
        (if JNull \<in> set errs then status_line r
         else case js_join '', '' (filter js_Boolean (map (own_property ''msg'') errs)) of
                None \<Rightarrow> status_line r
              | Some s \<Rightarrow> s)"
    by (simp add: extractErrorMessage_def t errors_branch_eq split: option.split)
  assume "\<forall>entry \<in> set errs. plain_entry entry"
  then show "extractErrorMessage r = join_strings '', '' (List.map_filter nonempty_msg errs)"
    by (simp add: g plain_join plain_no_null)
next
  assume a: "json r = Inr payload \<and>
    (\<forall>errs. optional_chain ''errors'' payload = Some (JArr errs) \<longrightarrow> errs = [])"
  then have "extract_try r = message_branch payload"
    by (auto simp: extract_try_def split: option.split json.split)
  then show "extractErrorMessage r =
        (case optional_chain ''message'' payload of
           Some (JStr m) \<Rightarrow> m
         | _ \<Rightarrow> status_line r)"
    by (simp add: extractErrorMessage_def message_branch_def split: option.split json.split)
qed

text \<open>
  The theorem at three replies: a 400 with two field errors, a 404 with a message, and
  a 500 whose body is not JSON.
\<close>

theorem extractErrorMessage_priority_witness:
  "extractErrorMessage validation_reply = ''Title is required, Status is invalid'' \<and>
   extractErrorMessage not_found_reply = ''Task not found'' \<and>
   extractErrorMessage (server_error_reply :: unit response) = ''500 Internal Server Error''"
proof -
  let ?errs = "[JObj [(''msg'', JStr ''Title is required'')],
                JObj [(''msg'', JStr ''Status is invalid'')]]"
  have v: "json validation_reply = Inr (JObj [(''errors'', JArr ?errs)]) \<and>
      optional_chain ''errors'' (JObj [(''errors'', JArr ?errs)]) = Some (JArr ?errs) \<and> ?errs \<noteq> []"
    by (simp add: validation_reply_def)
  have p: "\<forall>entry \<in> set ?errs. plain_entry entry"
    by (simp add: plain_entry_def)
  have j: "join_strings '', '' (List.map_filter nonempty_msg ?errs) =
      ''Title is required, Status is invalid''"
    by (simp add: nonempty_msg_def)
  from extractErrorMessage_priority [where r = validation_reply and errs = ?errs
      and payload = "JObj [(''errors'', JArr ?errs)]"] v p j
  have 1: "extractErrorMessage validation_reply = ''Title is required, Status is invalid''"
    by metis
  have n: "json not_found_reply = Inr (JObj [(''message'', JStr ''Task not found'')]) \<and>
      (\<forall>errs. optional_chain ''errors'' (JObj [(''message'', JStr ''Task not found'')]) =
         Some (JArr errs) \<longrightarrow> errs = [])"
    by (simp add: not_found_reply_def)
  from extractErrorMessage_priority [where r = not_found_reply
      and payload = "JObj [(''message'', JStr ''Task not found'')]"] n
  have 2: "extractErrorMessage not_found_reply = ''Task not found''"
    by simp
  have s: "json (server_error_reply :: unit response) =
      Inl (Error ''Unexpected token < in JSON at position 0'')"
    by (simp add: server_error_reply_def)
  have l: "status_line (server_error_reply :: unit response) = ''500 Internal Server Error''"
    by (simp add: status_line_def server_error_reply_def show_nat_examples)
  from extractErrorMessage_priority [where r = "server_error_reply :: unit response"
      and e = "Error ''Unexpected token < in JSON at position 0''"] s l
  have 3: "extractErrorMessage (server_error_reply :: unit response) =
      ''500 Internal Server Error''"
    by simp
  show ?thesis
    using 1 2 3 by simp
qed

subsection \<open>Sign-in validation\<close>






subsection \<open>Form and staged deletion\<close>

lemma run_append:
  "run d (xs @ ys) s = (case run d xs s of None \<Rightarrow> None | Some s' \<Rightarrow> run d ys s')"
  by (induction xs arbitrary: s) simp_all

lemma run_stage_delete:
  "run unrestricted stage_delete initialState = Some staged"
  "run keeps_apart stage_delete initialState = Some staged"
proof -
  let ?s1 = "initialState\<lparr>currentUser := Some example_user, authLoading := False\<rparr>"
  let ?s2 = "?s1\<lparr>usersLoading := True, tasksLoading := True\<rparr>"
  have 1: "fire (SessionReply (Resolved session_reply)) initialState = ?s1"
    by (simp add: loadCurrentUser_resume_def ok_replies)
      (simp add: session_reply_def initialState_def)
  have 2: "fire TasksEffect (fire UsersEffect ?s1) = ?s2"
    by (simp add: users_effect_def tasks_effect_def loadUsers_begin_def refreshTasks_begin_def)
  have 3: "fire (TasksReply (Resolved tasks_reply))
      (fire (UsersReply (Resolved users_reply)) ?s2) = loaded"
    by (simp add: loadUsers_resume_def refreshTasks_resume_def classify_accepted ok_replies)
      (simp add: users_reply_def tasks_reply_def initialState_def loaded_def)
  have 4: "card_enabled example_task loaded" "\<not> isFormVisible loaded"
    by (simp_all add: card_enabled_def showLoader_def isLoading_def loaded_def)
  have 5: "fire (ClickDelete example_task) loaded = staged"
    by (simp add: handleDeleteTask_def staged_def)
  show "run unrestricted stage_delete initialState = Some staged"
    unfolding stage_delete_def
    apply (simp only: run.simps unrestricted_def enabled.simps simp_thms if_True 1)
    apply (simp only: 2)
    apply (simp only: 3 4 5 if_True simp_thms)
    done
  show "run keeps_apart stage_delete initialState = Some staged"
    unfolding stage_delete_def
    apply (simp only: run.simps keeps_apart.simps enabled.simps simp_thms if_True 1)
    apply (simp only: 2)
    apply (simp only: 3 4 5 if_True simp_thms)
    done
qed

lemma run_stage_then_open:
  "run unrestricted stage_then_open initialState = Some form_over_pending"
proof -
  have e: "currentUser staged \<noteq> None \<and> \<not> usersLoading staged"
    by (simp add: staged_def loaded_def)
  have f: "openCreateForm staged = form_over_pending"
    by (simp add: openCreateForm_def form_over_pending_def staged_def loaded_def)
  show ?thesis
    using e by (simp add: stage_then_open_def run_append run_stage_delete f unrestricted_def)
qed

text \<open>
  Claim C9, as stated, fails. After the session check and both fetches the user asks to
  delete task 7 and then presses Add Task; each event is offered by the markup of \<open>App\<close>
  when it fires, and in the state reached the form is open while the deletion of task 7
  is pending. Nothing in \<open>openCreateForm\<close> looks at the pending deletion.
\<close>

theorem exclusive_counterexample:
  "run unrestricted stage_then_open initialState = Some form_over_pending \<and>
   isFormVisible form_over_pending \<and>
   pendingDeleteTask form_over_pending = Some example_task \<and>
   \<not> exclusive form_over_pending"
  using run_stage_then_open
  by (simp add: form_over_pending_def staged_def loaded_def exclusive_def)

lemma exclusive_update:
  "exclusive s \<Longrightarrow> exclusive (s\<lparr>error := x\<rparr>)"
  "exclusive s \<Longrightarrow> exclusive (s\<lparr>authError := x\<rparr>)"
  "exclusive s \<Longrightarrow> exclusive (s\<lparr>authMode := m\<rparr>)"
  "exclusive s \<Longrightarrow> exclusive (s\<lparr>authLoading := b\<rparr>)"
  "exclusive s \<Longrightarrow> exclusive (s\<lparr>authSubmitting := b\<rparr>)"
  "exclusive s \<Longrightarrow> exclusive (s\<lparr>tasksLoading := b\<rparr>)"
  "exclusive s \<Longrightarrow> exclusive (s\<lparr>usersLoading := b\<rparr>)"
  "exclusive s \<Longrightarrow> exclusive (s\<lparr>isSubmitting := b\<rparr>)"
  "exclusive s \<Longrightarrow> exclusive (s\<lparr>busyTaskId := i\<rparr>)"
  "exclusive s \<Longrightarrow> exclusive (s\<lparr>filterOption := k\<rparr>)"
  "exclusive s \<Longrightarrow> exclusive (s\<lparr>tasks := ts\<rparr>)"
  "exclusive s \<Longrightarrow> exclusive (s\<lparr>users := us\<rparr>)"
  "exclusive s \<Longrightarrow> exclusive (s\<lparr>currentUser := u\<rparr>)"
  "exclusive s \<Longrightarrow> exclusive (s\<lparr>editingTask := t\<rparr>)"
  "exclusive s \<Longrightarrow> exclusive (s\<lparr>pendingDeleteTask := None\<rparr>)"
  "exclusive (s\<lparr>isFormVisible := False\<rparr>)"
  by (simp_all add: exclusive_def)

lemma exclusive_closeForm: "exclusive (closeForm s)"
  by (simp add: closeForm_def exclusive_def)

lemma exclusive_resetSession: "exclusive (resetSession m s)"
  by (simp add: resetSession_def closeForm_def exclusive_def)

lemma exclusive_handleUnauthorized: "exclusive (handleUnauthorized s)"
  by (simp add: handleUnauthorized_def exclusive_resetSession)

lemma exclusive_refreshTasks_resume: "exclusive s \<Longrightarrow> exclusive (refreshTasks_resume f s)"
  by (simp add: refreshTasks_resume_def exclusive_update exclusive_handleUnauthorized
      split: reply.split sum.split)

lemma exclusive_loadUsers_resume: "exclusive s \<Longrightarrow> exclusive (loadUsers_resume f s)"
  by (simp add: loadUsers_resume_def exclusive_update exclusive_handleUnauthorized
      split: reply.split sum.split)

lemma exclusive_session:
  "exclusive s \<Longrightarrow> exclusive (loadCurrentUser_resume f s)"
  "exclusive s \<Longrightarrow> exclusive (handleLogin_resume f s)"
  "exclusive s \<Longrightarrow> exclusive (handleRegister_resume f s)"
  "exclusive (handleLogout_resume g s)"
  by (simp_all add: loadCurrentUser_resume_def handleLogin_resume_def handleRegister_resume_def
      handleLogout_resume_def exclusive_update exclusive_resetSession
      split: fetched.split sum.split)

lemma exclusive_responses:
  "exclusive s \<Longrightarrow> exclusive (state_of (handleCreateTask_response f s))"
  "exclusive s \<Longrightarrow> exclusive (state_of (handleUpdateTask_response f s))"
  "exclusive s \<Longrightarrow> exclusive (state_of (handleConfirmDelete_response f s))"
  "exclusive s \<Longrightarrow> exclusive (state_of (handleUpdateStatus_response f s))"
  by (simp_all add: handleCreateTask_response_def handleUpdateTask_response_def
      handleConfirmDelete_response_def handleUpdateStatus_response_def refreshTasks_begin_def
      exclusive_update exclusive_handleUnauthorized split: reply.split)

lemma exclusive_refreshed:
  "exclusive (handleCreateTask_refreshed f s)"
  "exclusive (handleUpdateTask_refreshed f s)"
  "exclusive s \<Longrightarrow> exclusive (handleConfirmDelete_refreshed f s)"
  "exclusive s \<Longrightarrow> exclusive (handleUpdateStatus_refreshed f s)"
  by (simp_all add: handleCreateTask_refreshed_def handleUpdateTask_refreshed_def
      handleConfirmDelete_refreshed_def handleUpdateStatus_refreshed_def
      exclusive_update exclusive_closeForm exclusive_refreshTasks_resume)

lemma exclusive_begins:
  "exclusive s \<Longrightarrow> exclusive (state_of (handleUpdateStatus_begin task n s))"
  "exclusive s \<Longrightarrow> exclusive (state_of (handleLogout_begin s))"
  "exclusive s \<Longrightarrow> exclusive (state_of (handleFormSubmit payload s))"
  "exclusive s \<Longrightarrow> exclusive (state_of (handleConfirmDelete_begin s))"
  "exclusive s \<Longrightarrow> exclusive (state_of (submit_auth_form st s))"
  "exclusive s \<Longrightarrow> exclusive (state_of (users_effect s))"
  "exclusive s \<Longrightarrow> exclusive (state_of (tasks_effect s))"
  by (simp_all add: handleUpdateStatus_begin_def handleLogout_begin_def handleFormSubmit_def
      handleUpdateTask_begin_def handleCreateTask_begin_def handleConfirmDelete_begin_def
      submit_auth_form_def handleLogin_begin_def handleRegister_begin_def users_effect_def
      tasks_effect_def loadUsers_begin_def refreshTasks_begin_def Let_def exclusive_update
      split: option.split auth_call.split)

lemma exclusive_workflow:
  "exclusive s \<Longrightarrow> pendingDeleteTask s = None \<Longrightarrow> exclusive (openCreateForm s)"
  "exclusive s \<Longrightarrow> pendingDeleteTask s = None \<Longrightarrow> exclusive (onEdit task s)"
  "exclusive s \<Longrightarrow> \<not> isFormVisible s \<Longrightarrow> exclusive (handleDeleteTask task s)"
  "exclusive s \<Longrightarrow> exclusive (handleCancelDelete s)"
  by (auto simp: openCreateForm_def onEdit_def handleDeleteTask_def handleCancelDelete_def
      exclusive_def split: option.split)

lemma exclusive_fire:
  "exclusive s \<Longrightarrow> keeps_apart e s \<Longrightarrow> exclusive (fire e s)"
  by (cases e)
    (simp_all add: exclusive_update exclusive_closeForm exclusive_refreshTasks_resume
      exclusive_loadUsers_resume exclusive_session exclusive_responses exclusive_refreshed
      exclusive_begins exclusive_workflow)

lemma exclusive_run:
  "exclusive s0 \<Longrightarrow> run keeps_apart es s0 = Some s \<Longrightarrow> exclusive s"
proof (induction es arbitrary: s0)
  case Nil
  then show ?case by simp
next
  case (Cons e es)
  from Cons.prems(2) have en: "enabled e s0 \<and> keeps_apart e s0"
    and rest: "run keeps_apart es (fire e s0) = Some s"
    by (simp_all split: if_splits)
  from Cons.prems(1) en have "exclusive (fire e s0)"
    by (simp add: exclusive_fire)
  with rest show ?case
    by (rule Cons.IH [rotated])
qed

lemma keeps_apart_other:
  "e \<noteq> ClickAddTask \<Longrightarrow> \<forall>task. e \<noteq> ClickEdit task \<Longrightarrow> \<forall>task. e \<noteq> ClickDelete task \<Longrightarrow>
     keeps_apart e s"
  by (cases e) simp_all

lemma run_keeps_apart_unrestricted:
  "run keeps_apart es s0 = Some s \<Longrightarrow> run unrestricted es s0 = Some s"
proof (induction es arbitrary: s0)
  case Nil
  then show ?case by simp
next
  case (Cons e es)
  from Cons.prems have en: "enabled e s0"
    and rest: "run keeps_apart es (fire e s0) = Some s"
    by (simp_all split: if_splits)
  from Cons.IH [OF rest] en show ?case
    by (simp add: unrestricted_def)
qed

text \<open>
  Claim C9, amended. Opening the form while a deletion is pending and staging a
  deletion while the form is open are not prevented: \<open>openCreateForm\<close> and \<open>onEdit\<close> open
  the form and leave the pending deletion in place, \<open>handleDeleteTask\<close> stages the
  deletion and leaves the form as it is, so states with both present are reached. These
  are the only transitions that break 'at most one of the two is present'. From a state
  where it holds, Add Task and Edit keep it exactly when no deletion is pending, Delete
  keeps it exactly when the form is closed, and every other event of the controller
  keeps it. Hence a state reached from the first render has both present only if, in
  that run, the form was opened over a pending deletion or a deletion was staged over
  the open form.
\<close>

theorem exclusive_broken_only_by_open_or_stage:
  "(exclusive s \<longrightarrow>
      (exclusive (fire ClickAddTask s) \<longleftrightarrow> pendingDeleteTask s = None) \<and>
      (exclusive (fire (ClickEdit task) s) \<longleftrightarrow> pendingDeleteTask s = None) \<and>
      (exclusive (fire (ClickDelete task) s) \<longleftrightarrow> \<not> isFormVisible s) \<and>
      (e \<noteq> ClickAddTask \<and> (\<forall>t. e \<noteq> ClickEdit t) \<and> (\<forall>t. e \<noteq> ClickDelete t) \<longrightarrow>
         exclusive (fire e s))) \<and>
   (isFormVisible (openCreateForm s') \<and>
    pendingDeleteTask (openCreateForm s') = pendingDeleteTask s' \<and>
    isFormVisible (onEdit task s') \<and>
    pendingDeleteTask (onEdit task s') = pendingDeleteTask s' \<and>
    pendingDeleteTask (handleDeleteTask task s') = Some task \<and>
    isFormVisible (handleDeleteTask task s') = isFormVisible s') \<and>
   (run unrestricted es initialState = Some s'' \<and> \<not> exclusive s'' \<longrightarrow>
      run keeps_apart es initialState = None)"
proof (intro conjI impI)
  show "exclusive (fire ClickAddTask s) \<longleftrightarrow> pendingDeleteTask s = None"
    "exclusive (fire (ClickEdit task) s) \<longleftrightarrow> pendingDeleteTask s = None"
    "exclusive (fire (ClickDelete task) s) \<longleftrightarrow> \<not> isFormVisible s"
    by (simp_all add: openCreateForm_def onEdit_def handleDeleteTask_def exclusive_def)
next
  assume "exclusive s"
    and "e \<noteq> ClickAddTask \<and> (\<forall>t. e \<noteq> ClickEdit t) \<and> (\<forall>t. e \<noteq> ClickDelete t)"
  then show "exclusive (fire e s)"
    by (simp add: exclusive_fire keeps_apart_other)
next
  assume a: "run unrestricted es initialState = Some s'' \<and> \<not> exclusive s''"
  show "run keeps_apart es initialState = None"
  proof (rule ccontr)
    assume "run keeps_apart es initialState \<noteq> None"
    then obtain t where t: "run keeps_apart es initialState = Some t"
      by auto
    have "exclusive initialState"
      by (simp add: exclusive_def initialState_def)
    then have "exclusive t"
      using t by (rule exclusive_run)
    moreover have "t = s''"
      using run_keeps_apart_unrestricted [OF t] a by simp
    ultimately show False
      using a by simp
  qed
qed (simp_all add: openCreateForm_def onEdit_def handleDeleteTask_def)

text \<open>
  The theorem at the state with the deletion of task 7 staged: Add Task breaks 'at most
  one', Cancel keeps it; and on the run that ends with Add Task, which opens the form
  over the pending deletion.
\<close>

theorem exclusive_broken_only_by_open_or_stage_witness:
  "exclusive staged \<and>
   pendingDeleteTask staged \<noteq> None \<and>
   \<not> exclusive (fire ClickAddTask staged) \<and>
   exclusive (fire ClickCancelDelete staged) \<and>
   run unrestricted stage_then_open initialState = Some form_over_pending \<and>
   \<not> exclusive form_over_pending \<and>
   run keeps_apart stage_then_open initialState = None"
proof -
  have s: "exclusive staged" "pendingDeleteTask staged \<noteq> None"
    by (simp_all add: staged_def loaded_def exclusive_def)
  have n: "\<not> exclusive form_over_pending"
    by (simp add: form_over_pending_def staged_def loaded_def exclusive_def)
  have c: "ClickCancelDelete \<noteq> ClickAddTask \<and> (\<forall>t. ClickCancelDelete \<noteq> ClickEdit t) \<and>
      (\<forall>t. ClickCancelDelete \<noteq> ClickDelete t)"
    by simp
  note inst = exclusive_broken_only_by_open_or_stage
      [where s = staged and e = ClickCancelDelete and task = example_task and s' = staged
        and es = stage_then_open and s'' = form_over_pending]
  note events = inst [THEN conjunct1, THEN mp, OF s(1)]
  from events [THEN conjunct1] s(2)
  have 1: "\<not> exclusive (fire ClickAddTask staged)"
    by simp
  have 2: "exclusive (fire ClickCancelDelete staged)"
    by (rule events [THEN conjunct2, THEN conjunct2, THEN conjunct2, THEN mp, OF c])
  have 3: "run keeps_apart stage_then_open initialState = None"
    by (rule inst [THEN conjunct2, THEN conjunct2, THEN mp]) (simp add: run_stage_then_open n)
  show ?thesis
    using s n 1 2 3 by (simp add: run_stage_then_open)
qed

end
